theory Spec2Isabelle
  imports Main "HOL-Library.Word"
begin

unbundle bit_operations_syntax

section \<open>The intermediate representation\<close>

text \<open>
  The lowering code builds MLIR operations through a builder. The embedding keeps the
  operations that the code creates, in creation order. An SSA value is represented by the
  operation that defines it (\<open>OpResult\<close>), by its position among the arguments of the
  entry block (\<open>BlockArgument\<close>), or it is the null value of a default-constructed
  \<open>mlir::Value\<close>. Source locations are left out.
\<close>

datatype mtype =
    MlirIntegerType nat
  | LLVMPointerType nat
  | LLVMArrayType mtype nat
  | LLVMVoidType
  | RankedTensorType "nat list" mtype
  | MemRefType mtype

datatype attr =
    BoolAttr bool
  | IntegerAttr mtype int
  | ZeroAttr mtype

datatype linkage = External | Private

datatype cmp_predicate = CmpEq

datatype val =
    NullValue
  | BlockArgument nat mtype
  | OpResult op
and op =
    ConstantOp mtype int
  | ConstantSplatOp mtype "int list"
  | AddressOfOp string
  | StoreOp val val nat
  | LoadOp val nat
  | PtrToIntOp mtype val
  | IntToPtrOp mtype val
  | LShrOp val val
  | AndOp val val
  | GEPOp mtype mtype val "val list" "mtype option"
  | AndIOp val val
  | CmpIOp cmp_predicate val val
  | MulIOp val val
  | AddIOp val val
  | ExtSIOp mtype val
  | ExtUIOp mtype val
  | FuncCallOp string "val list"
  | LLVMCallOp string "val list"
  | UnreachableOp
  | IfOp val "op list" "op list"
  | YieldOp
  | MemRefAllocaOp mtype nat
  | MemRefLoadOp val
  | MemRefStoreOp val val
  | FuncReturnOp "val list"
  | SolReturnOp val val
  | SolObjectOp string block
  | SolContractOp string "op list"
  | FuncOp string "mtype list" "mtype list" "block list"
  | LLVMFuncOp string mtype "mtype list" linkage "(string \<times> attr) list" "block list"
  | GlobalOp string mtype nat nat linkage "attr option"
  | OtherOp string "val list"
and block =
    Block "mtype list" "op list"

text \<open>
  \<open>StoreOp value address alignment\<close> and \<open>LoadOp address alignment\<close>: an alignment
  that the code does not pass is the builder's default, 0.
  \<open>GEPOp resultType basePtrType base indices elemTypeAttr\<close>.
  \<open>LLVMFuncOp name resultType argTypes linkage attrs blocks\<close>.
  \<open>GlobalOp name type alignment addrSpace linkage initialValue\<close>.
  Two operations of the same kind with the same operands are not told apart, with one
  exception: the second field of \<open>MemRefAllocaOp\<close> is the number of the function
  parameter for which the slot is allocated, so that the slots of two parameters of
  the same type differ.
\<close>

subsection \<open>Constants of the EraVM target\<close>

definition AddrSpace_Stack :: nat where "AddrSpace_Stack = 0"
definition AddrSpace_Heap :: nat where "AddrSpace_Heap = 1"
definition AddrSpace_HeapAuxiliary :: nat where "AddrSpace_HeapAuxiliary = 2"
definition AddrSpace_Generic :: nat where "AddrSpace_Generic = 3"
definition AddrSpace_Code :: nat where "AddrSpace_Code = 4"
definition AddrSpace_Storage :: nat where "AddrSpace_Storage = 5"

definition ByteLen_Byte :: nat where "ByteLen_Byte = 1"
definition ByteLen_X32 :: nat where "ByteLen_X32 = 4"
definition ByteLen_X64 :: nat where "ByteLen_X64 = 8"
definition ByteLen_EthAddr :: nat where "ByteLen_EthAddr = 20"
definition ByteLen_Field :: nat where "ByteLen_Field = 32"

definition BitLen_Bool :: nat where "BitLen_Bool = 1"
definition BitLen_Byte :: nat where "BitLen_Byte = 8"
definition BitLen_X32 :: nat where "BitLen_X32 = BitLen_Byte * ByteLen_X32"
definition BitLen_X64 :: nat where "BitLen_X64 = BitLen_Byte * ByteLen_X64"
definition BitLen_EthAddr :: nat where "BitLen_EthAddr = BitLen_Byte * ByteLen_EthAddr"
definition BitLen_Field :: nat where "BitLen_Field = BitLen_Byte * ByteLen_Field"

definition HeapAuxOffsetCtorRetData :: nat where
  "HeapAuxOffsetCtorRetData = ByteLen_Field * 8"
definition ExtraABIDataSize :: nat where "ExtraABIDataSize = 10"

definition UseHeap :: nat where "UseHeap = 0"
definition ForwardFatPtr :: nat where "ForwardFatPtr = 1"
definition UseAuxHeap :: nat where "UseAuxHeap = 2"

definition GlobHeapMemPtr :: string where "GlobHeapMemPtr = ''memory_pointer''"
definition GlobCallDataSize :: string where "GlobCallDataSize = ''calldatasize''"
definition GlobRetDataSz :: string where "GlobRetDataSz = ''returndatasize''"
definition GlobCallFlags :: string where "GlobCallFlags = ''call_flags''"
definition GlobExtraABIData :: string where "GlobExtraABIData = ''extra_abi_data''"
definition GlobCallDataPtr :: string where "GlobCallDataPtr = ''ptr_calldata''"
definition GlobRetDataPtr :: string where "GlobRetDataPtr = ''ptr_return_data''"
definition GlobActivePtr :: string where "GlobActivePtr = ''ptr_active''"

definition ArgIndexCallDataABI :: nat where "ArgIndexCallDataABI = 0"
definition ArgIndexCallFlags :: nat where "ArgIndexCallFlags = 1"
definition MandatoryArgCnt :: nat where "MandatoryArgCnt = 2"

text \<open>\<open>UINT_MAX\<close> of \<open>climits\<close>, for the 32-bit \<open>unsigned\<close> of the target compilers.\<close>

definition UINT_MAX :: int where "UINT_MAX = 4294967295"

definition i256Ty :: mtype where "i256Ty = MlirIntegerType 256"

subsection \<open>The builder\<close>

text \<open>
  The builder state: the body of the module, and the operations created so far at the
  insertion point, oldest first.
\<close>

record builder =
  bmod :: "op list"
  bops :: "op list"

definition create :: "op \<Rightarrow> builder \<Rightarrow> val \<times> builder" where
  "create x b = (OpResult x, b\<lparr>bops := bops b @ [x]\<rparr>)"

text \<open>
  Modelled from the spec: \<open>solidity::mlirgen::BuilderHelper::getConst\<close> (declared in
  \<open>libsolidity/codegen/mlir/Util.h\<close>, not among the sources) is the helper that
  constructs a typed constant; the lowering uses it at its default width, the 256-bit word.
\<close>

definition getConst :: "int \<Rightarrow> builder \<Rightarrow> val \<times> builder" where
  "getConst v b = create (ConstantOp i256Ty v) b"

text \<open>\<open>eravm::BuilderHelper::getABILen\<close>\<close>

definition getABILen :: "val \<Rightarrow> builder \<Rightarrow> val \<times> builder" where
  "getABILen ptr b =
    (let (ptrToInt, b1) = create (PtrToIntOp i256Ty ptr) b;
         (c96, b2) = getConst (int (BitLen_X32 * 3)) b1;
         (lShr, b3) = create (LShrOp ptrToInt c96) b2;
         (cMax, b4) = getConst UINT_MAX b3
     in create (AndOp lShr cMax) b4)"

subsection \<open>The value of a word-typed SSA value\<close>

text \<open>
  What the created integer operations compute on 256-bit words, given the integer value
  \<open>ptrval p\<close> of every pointer \<open>p\<close>. A logical shift right by the width or more is
  poison in LLVM; such a value, and every value that is not a 256-bit integer computed
  by these operations, has no result here.
\<close>

fun eval_val :: "(val \<Rightarrow> 256 word) \<Rightarrow> val \<Rightarrow> 256 word option"
and eval_op :: "(val \<Rightarrow> 256 word) \<Rightarrow> op \<Rightarrow> 256 word option" where
  "eval_val ptrval (OpResult x) = eval_op ptrval x"
| "eval_val ptrval NullValue = None"
| "eval_val ptrval (BlockArgument i t) = None"
| "eval_op ptrval (ConstantOp t n) =
     (if t = MlirIntegerType 256 then Some (word_of_int n) else None)"
| "eval_op ptrval (PtrToIntOp t p) =
     (if t = MlirIntegerType 256 then Some (ptrval p) else None)"
| "eval_op ptrval (LShrOp a s) =
     (case (eval_val ptrval a, eval_val ptrval s) of
        (Some x, Some n) \<Rightarrow> if unat n < 256 then Some (drop_bit (unat n) x) else None
      | _ \<Rightarrow> None)"
| "eval_op ptrval (AndOp a c) =
     (case (eval_val ptrval a, eval_val ptrval c) of
        (Some x, Some y) \<Rightarrow> Some (x AND y) | _ \<Rightarrow> None)"
| "eval_op ptrval (AndIOp a c) =
     (case (eval_val ptrval a, eval_val ptrval c) of
        (Some x, Some y) \<Rightarrow> Some (x AND y) | _ \<Rightarrow> None)"
| "eval_op ptrval (MulIOp a c) =
     (case (eval_val ptrval a, eval_val ptrval c) of
        (Some x, Some y) \<Rightarrow> Some (x * y) | _ \<Rightarrow> None)"
| "eval_op ptrval (AddIOp a c) =
     (case (eval_val ptrval a, eval_val ptrval c) of
        (Some x, Some y) \<Rightarrow> Some (x + y) | _ \<Rightarrow> None)"
| "eval_op ptrval _ = None"

section \<open>The lowering pass for EraVM\<close>

text \<open>
  An \<open>assert\<close> that fails, a failing \<open>cast\<close> and \<open>llvm_unreachable\<close> abort the
  compiler. A computation that can fail returns a sum, \<open>Inl\<close> the failure; \<open>bindE\<close>
  continues with the result or passes the failure on.
\<close>

datatype abort = AssertionFailed | LLVMUnreachable string

definition bindE :: "'e + 'a \<Rightarrow> ('a \<Rightarrow> 'e + 'b) \<Rightarrow> 'e + 'b" where
  "bindE m f = (case m of Inl e \<Rightarrow> Inl e | Inr x \<Rightarrow> f x)"

text \<open>\<open>llvm::StringRef::endswith\<close>\<close>

definition endswith :: "string \<Rightarrow> string \<Rightarrow> bool" where
  "endswith s suffix =
     (length suffix \<le> length s \<and> drop (length s - length suffix) s = suffix)"

definition isLLVMFuncOp :: "op \<Rightarrow> bool" where
  "isLLVMFuncOp x = (case x of LLVMFuncOp n r a l ats blks \<Rightarrow> True | _ \<Rightarrow> False)"

definition isObjectOp :: "op \<Rightarrow> bool" where
  "isObjectOp x = (case x of SolObjectOp n blk \<Rightarrow> True | _ \<Rightarrow> False)"

definition isGlobalOp :: "op \<Rightarrow> bool" where
  "isGlobalOp x = (case x of GlobalOp n t al sp l i \<Rightarrow> True | _ \<Rightarrow> False)"

text \<open>The \<open>sym_name\<close> attribute of the operations that define a symbol.\<close>

definition getSymName :: "op \<Rightarrow> string option" where
  "getSymName x =
     (case x of
        SolObjectOp n blk \<Rightarrow> Some n
      | SolContractOp n ops \<Rightarrow> Some n
      | FuncOp n ins outs blks \<Rightarrow> Some n
      | LLVMFuncOp n r a l ats blks \<Rightarrow> Some n
      | GlobalOp n t al sp l i \<Rightarrow> Some n
      | _ \<Rightarrow> None)"

definition getAttr :: "op \<Rightarrow> string \<Rightarrow> attr option" where
  "getAttr x name =
     (case x of LLVMFuncOp n r a l ats blks \<Rightarrow> map_of ats name | _ \<Rightarrow> None)"

text \<open>
  \<open>mod.lookupSymbol<T>(name)\<close>: the first operation of the module body that defines
  the symbol \<open>name\<close>, if it is a \<open>T\<close>.
\<close>

definition lookupSymbol :: "string \<Rightarrow> op list \<Rightarrow> op option" where
  "lookupSymbol name body = find (\<lambda>x. getSymName x = Some name) body"

definition lookupSymbolOfType :: "(op \<Rightarrow> bool) \<Rightarrow> string \<Rightarrow> op list \<Rightarrow> op option" where
  "lookupSymbolOfType isT name body =
     (case lookupSymbol name body of
        Some x \<Rightarrow> if isT x then Some x else None
      | None \<Rightarrow> None)"

text \<open>
  \<open>getOrInsertLLVMFuncOp\<close>: the function found under the name, or else a new one created
  at the start of the module body. The insertion guard restores the insertion point, so
  the operations at the insertion point are untouched.
\<close>

definition getOrInsertLLVMFuncOp ::
  "string \<Rightarrow> mtype \<Rightarrow> mtype list \<Rightarrow> linkage \<Rightarrow> (string \<times> attr) list \<Rightarrow> builder
     \<Rightarrow> op \<times> builder" where
  "getOrInsertLLVMFuncOp name resTy argTys lnk attrs b =
     (case lookupSymbolOfType isLLVMFuncOp name (bmod b) of
        Some found \<Rightarrow> (found, b)
      | None \<Rightarrow>
          (let f = LLVMFuncOp name resTy argTys lnk attrs []
           in (f, b\<lparr>bmod := f # bmod b\<rparr>)))"

definition getOrInsertCreationFuncOp ::
  "string \<Rightarrow> mtype \<Rightarrow> mtype list \<Rightarrow> builder \<Rightarrow> op \<times> builder" where
  "getOrInsertCreationFuncOp name resTy argTys b =
     getOrInsertLLVMFuncOp name resTy argTys Private [(''isRuntime'', BoolAttr False)] b"

definition getOrInsertRuntimeFuncOp ::
  "string \<Rightarrow> mtype \<Rightarrow> mtype list \<Rightarrow> builder \<Rightarrow> op \<times> builder" where
  "getOrInsertRuntimeFuncOp name resTy argTys b =
     getOrInsertLLVMFuncOp name resTy argTys Private [(''isRuntime'', BoolAttr True)] b"

subsection \<open>The context of an operation\<close>

text \<open>
  \<open>inRuntimeContext op\<close>. The operations that enclose \<open>op\<close> are given from the nearest
  outwards; \<open>op->getParentOfType<T>()\<close> is the first of them that is a \<open>T\<close>.
\<close>

definition inRuntimeContext :: "op \<Rightarrow> op list \<Rightarrow> abort + bool" where
  "inRuntimeContext x parents =
     (if isLLVMFuncOp x \<or> isObjectOp x then Inl AssertionFailed
      else
        (case find isLLVMFuncOp parents of
           Some parentFunc \<Rightarrow>
             (case getAttr parentFunc ''isRuntime'' of
                None \<Rightarrow> Inl AssertionFailed
              | Some (BoolAttr v) \<Rightarrow> Inr v
              | Some _ \<Rightarrow> Inl AssertionFailed)
         | None \<Rightarrow>
             (case find isObjectOp parents of
                Some parentObj \<Rightarrow>
                  (case parentObj of
                     SolObjectOp n blk \<Rightarrow> Inr (endswith n ''_deployed'')
                   | _ \<Rightarrow> Inl AssertionFailed)
              | None \<Rightarrow> Inl (LLVMUnreachable ''op has no parent FuncOp or ObjectOp''))))"

subsection \<open>The position of an operation in the module\<close>

text \<open>
  A pattern rewrites an operation where it stands. The position of a block in the module
  is the list of the operations that enclose it, from the nearest outwards, each as a
  frame (the enclosing operation without the operations of the block that it holds) with
  the operations before and after it in its own block. \<open>plug\<close> gives the module body
  for the operations of the block, and \<open>parentsOf\<close> the enclosing operations themselves,
  from the nearest outwards (the module operation, which is neither a function nor an
  object, is not listed).
\<close>

datatype frame =
    ObjectFrame string "mtype list"
  | LLVMFuncFrame string mtype "mtype list" linkage "(string \<times> attr) list"
      "block list" "mtype list" "block list"
  | FuncFrame string "mtype list" "mtype list" "block list" "mtype list" "block list"
  | IfThenFrame val "op list"
  | IfElseFrame val "op list"
  | ContractFrame string

definition fill :: "frame \<Rightarrow> op list \<Rightarrow> op" where
  "fill fr ops =
     (case fr of
        ObjectFrame n args \<Rightarrow> SolObjectOp n (Block args ops)
      | LLVMFuncFrame n r a l ats blksBefore args blksAfter \<Rightarrow>
          LLVMFuncOp n r a l ats (blksBefore @ [Block args ops] @ blksAfter)
      | FuncFrame n ins outs blksBefore args blksAfter \<Rightarrow>
          FuncOp n ins outs (blksBefore @ [Block args ops] @ blksAfter)
      | IfThenFrame c els \<Rightarrow> IfOp c ops els
      | IfElseFrame c thn \<Rightarrow> IfOp c thn ops
      | ContractFrame n \<Rightarrow> SolContractOp n ops)"

type_synonym position = "(op list \<times> frame \<times> op list) list"

fun plug :: "position \<Rightarrow> op list \<Rightarrow> op list" where
  "plug [] ops = ops"
| "plug ((before, fr, after) # outer) ops = plug outer (before @ [fill fr ops] @ after)"

fun parentsOf :: "position \<Rightarrow> op list \<Rightarrow> op list" where
  "parentsOf [] ops = []"
| "parentsOf ((before, fr, after) # outer) ops =
     fill fr ops # parentsOf outer (before @ [fill fr ops] @ after)"

text \<open>
  The state of the rewriter while a pattern rewrites an operation inside a block: the
  operations that have been inserted at the start of the module body, the position of
  the block, the operations of the block in front of the insertion point and those
  from the insertion point on. The conversion sets the insertion point to the operation
  that is rewritten, so this operation is the first of \<open>rafter\<close>. \<open>moduleOf\<close> is the
  module body as it stands; \<open>createAt\<close> inserts a new operation at the insertion point,
  \<open>getConstAt\<close> is \<open>getConst\<close> for this state, and \<open>eraseOp\<close> is
  \<open>rewriter.eraseOp\<close> for an operation from the insertion point on.
\<close>

record rewriter =
  rdecls :: "op list"
  rpos :: position
  rbefore :: "op list"
  rafter :: "op list"

definition moduleOf :: "rewriter \<Rightarrow> op list" where
  "moduleOf r = rdecls r @ plug (rpos r) (rbefore r @ rafter r)"

definition createAt :: "op \<Rightarrow> rewriter \<Rightarrow> val \<times> rewriter" where
  "createAt x r = (OpResult x, r\<lparr>rbefore := rbefore r @ [x]\<rparr>)"

definition getConstAt :: "int \<Rightarrow> rewriter \<Rightarrow> val \<times> rewriter" where
  "getConstAt v r = createAt (ConstantOp i256Ty v) r"

definition eraseOp :: "op \<Rightarrow> rewriter \<Rightarrow> rewriter" where
  "eraseOp x r = r\<lparr>rafter := remove1 x (rafter r)\<rparr>"

text \<open>
  \<open>getOrInsertLLVMFuncSym\<close>, with its call of \<open>getOrInsertLLVMFuncOp\<close> (external
  linkage, no attributes) written out for this state: a new function goes to the start
  of the module body. \<open>getOrInsertReturn\<close> asks for the function \<open>__return\<close>.
\<close>

definition getOrInsertLLVMFuncSym ::
  "string \<Rightarrow> mtype \<Rightarrow> mtype list \<Rightarrow> rewriter \<Rightarrow> string \<times> rewriter" where
  "getOrInsertLLVMFuncSym name resTy argTys r =
     (case lookupSymbolOfType isLLVMFuncOp name (moduleOf r) of
        Some found \<Rightarrow> (name, r)
      | None \<Rightarrow>
          (let f = LLVMFuncOp name resTy argTys External [] []
           in (name, r\<lparr>rdecls := f # rdecls r\<rparr>)))"

definition getOrInsertReturn :: "rewriter \<Rightarrow> string \<times> rewriter" where
  "getOrInsertReturn r =
     getOrInsertLLVMFuncSym ''__return'' LLVMVoidType [i256Ty, i256Ty, i256Ty] r"

subsection \<open>Lowering of \<open>sol.return\<close>\<close>

text \<open>
  \<open>ReturnOpLowering::matchAndRewrite\<close> for the operation \<open>x\<close> at the insertion point.
  The new operations are inserted in front of \<open>x\<close>, and at the end \<open>x\<close> is erased.
  The enclosing operations that \<open>inRuntimeContext\<close> walks through are those of the
  position. The two constants that are the operands of the multiplication are created by
  two arguments of one call, whose order C++ leaves open; they are taken from left to
  right.
\<close>

definition ReturnOpLowering :: "op \<Rightarrow> rewriter \<Rightarrow> abort + rewriter" where
  "ReturnOpLowering x r =
     (case x of
        SolReturnOp lhs rhs \<Rightarrow>
          (let (returnFunc, r0) = getOrInsertReturn r in
           bindE (inRuntimeContext x (parentsOf (rpos r) (rbefore r @ rafter r))) (\<lambda>runtime.
             if runtime then
               (let (cHeap, r1) = getConstAt (int UseHeap) r0;
                    (c1, r2) = createAt (FuncCallOp returnFunc [lhs, rhs, cHeap]) r1;
                    (c2, r3) = createAt UnreachableOp r2
                in Inr (eraseOp x r3))
             else
               (let heapAuxAddrSpacePtrTy = LLVMPointerType AddrSpace_HeapAuxiliary;
                    (cOff, r1) = getConstAt (int HeapAuxOffsetCtorRetData) r0;
                    (immutablesOffsetPtr, r2) =
                       createAt (IntToPtrOp heapAuxAddrSpacePtrTy cOff) r1;
                    (cField, r3) = getConstAt (int ByteLen_Field) r2;
                    (c1, r4) = createAt (StoreOp cField immutablesOffsetPtr 0) r3;
                    immutablesSize = (0 :: nat);
                    (cNumOff, r5) =
                       getConstAt (int (HeapAuxOffsetCtorRetData + ByteLen_Field)) r4;
                    (immutablesNumPtr, r6) =
                       createAt (IntToPtrOp heapAuxAddrSpacePtrTy cNumOff) r5;
                    (cNum, r7) = getConstAt (int (immutablesSize div ByteLen_Field)) r6;
                    (c2, r8) = createAt (StoreOp cNum immutablesNumPtr 0) r7;
                    (cSize, r9) = getConstAt (int immutablesSize) r8;
                    (cTwo, r10) = getConstAt 2 r9;
                    (immutablesCalcSize, r11) = createAt (MulIOp cSize cTwo) r10;
                    (cFields, r12) = getConstAt (int (ByteLen_Field * 2)) r11;
                    (returnDataLen, r13) = createAt (AddIOp immutablesCalcSize cFields) r12;
                    (cBase, r14) = getConstAt (int HeapAuxOffsetCtorRetData) r13;
                    (cAux, r15) = getConstAt (int UseAuxHeap) r14;
                    (c3, r16) =
                       createAt (FuncCallOp returnFunc [cBase, returnDataLen, cAux]) r15;
                    (c4, r17) = createAt UnreachableOp r16
                in Inr (eraseOp x r17))))
      | _ \<Rightarrow> Inl AssertionFailed)"

text \<open>
  The operations with an effect on memory or on the control flow, as opposed to the
  operations that only compute a value.
\<close>

definition hasEffect :: "op \<Rightarrow> bool" where
  "hasEffect x =
     (case x of
        StoreOp v a al \<Rightarrow> True
      | MemRefStoreOp v a \<Rightarrow> True
      | FuncCallOp f args \<Rightarrow> True
      | LLVMCallOp f args \<Rightarrow> True
      | UnreachableOp \<Rightarrow> True
      | IfOp c t e \<Rightarrow> True
      | YieldOp \<Rightarrow> True
      | FuncReturnOp vs \<Rightarrow> True
      | SolReturnOp l r \<Rightarrow> True
      | OtherOp n vs \<Rightarrow> True
      | _ \<Rightarrow> False)"

subsection \<open>Global slots\<close>

text \<open>
  Modelled from the spec: \<open>getOrInsertGlobalOp\<close>, \<open>getOrInsertIntGlobalOp\<close>,
  \<open>getOrInsertPtrGlobalOp\<close>, \<open>getGlobalOp\<close> and \<open>getConstSplat\<close> of
  \<open>solidity::mlirgen::BuilderHelper\<close> are declared in
  \<open>libsolidity/codegen/mlir/Util.h\<close>, which is not among the sources. A global slot is
  a named, module-scoped storage location with a fixed address-space tag and an optional
  initializer, created at most once per module per name (lookup-or-insert); a new one is
  put at the start of the module body, as \<open>getOrInsertLLVMFuncOp\<close> does. The integer
  slot is a 256-bit word initialised to zero; the pointer slot holds a pointer of the
  given address space. \<open>getGlobalOp\<close> expects the slot to exist.
\<close>

definition getOrInsertGlobalOp ::
  "string \<Rightarrow> mtype \<Rightarrow> nat \<Rightarrow> nat \<Rightarrow> linkage \<Rightarrow> attr option \<Rightarrow> builder \<Rightarrow> op \<times> builder" where
  "getOrInsertGlobalOp name ty alignment addrSpace lnk init b =
     (case lookupSymbolOfType isGlobalOp name (bmod b) of
        Some found \<Rightarrow> (found, b)
      | None \<Rightarrow>
          (let g = GlobalOp name ty alignment addrSpace lnk init
           in (g, b\<lparr>bmod := g # bmod b\<rparr>)))"

definition getOrInsertIntGlobalOp :: "string \<Rightarrow> nat \<Rightarrow> builder \<Rightarrow> op \<times> builder" where
  "getOrInsertIntGlobalOp name addrSpace b =
     getOrInsertGlobalOp name i256Ty 32 addrSpace Private (Some (IntegerAttr i256Ty 0)) b"

definition getOrInsertPtrGlobalOp :: "string \<Rightarrow> nat \<Rightarrow> builder \<Rightarrow> op \<times> builder" where
  "getOrInsertPtrGlobalOp name addrSpace b =
     getOrInsertGlobalOp name (LLVMPointerType addrSpace) 32 addrSpace Private None b"

definition getGlobalOp :: "string \<Rightarrow> builder \<Rightarrow> abort + op" where
  "getGlobalOp name b =
     (case lookupSymbolOfType isGlobalOp name (bmod b) of
        Some found \<Rightarrow> Inr found
      | None \<Rightarrow> Inl AssertionFailed)"

definition getConstSplat :: "int list \<Rightarrow> builder \<Rightarrow> val \<times> builder" where
  "getConstSplat vs b = create (ConstantSplatOp (RankedTensorType [length vs] i256Ty) vs) b"

definition globalName :: "op \<Rightarrow> string" where
  "globalName g = (case g of GlobalOp n t al sp l i \<Rightarrow> n | _ \<Rightarrow> [])"

definition globalType :: "op \<Rightarrow> mtype" where
  "globalType g = (case g of GlobalOp n t al sp l i \<Rightarrow> t | _ \<Rightarrow> LLVMVoidType)"

definition globalAddrSpace :: "op \<Rightarrow> nat" where
  "globalAddrSpace g = (case g of GlobalOp n t al sp l i \<Rightarrow> sp | _ \<Rightarrow> 0)"

text \<open>\<open>eravm::BuilderHelper::initGlobs\<close>, with its local function \<open>initInt\<close>\<close>

definition initInt :: "string \<Rightarrow> builder \<Rightarrow> builder" where
  "initInt name b =
     (let (globOp, b1) = getOrInsertIntGlobalOp name AddrSpace_Stack b;
          (globAddr, b2) = create (AddressOfOp (globalName globOp)) b1;
          (c0, b3) = getConst 0 b2;
          (r, b4) = create (StoreOp c0 globAddr 32) b3
      in b4)"

definition initGlobs :: "builder \<Rightarrow> builder" where
  "initGlobs b =
     (let b1 = initInt GlobHeapMemPtr b;
          b2 = initInt GlobCallDataSize b1;
          b3 = initInt GlobRetDataSz b2;
          b4 = initInt GlobCallFlags b3;
          (extraABIData, b5) =
             getOrInsertGlobalOp GlobExtraABIData (LLVMArrayType i256Ty 10) 32 AddrSpace_Stack
               Private (Some (ZeroAttr (RankedTensorType [10] i256Ty))) b4;
          (extraABIDataAddr, b6) = create (AddressOfOp (globalName extraABIData)) b5;
          (splat, b7) = getConstSplat (replicate 10 0) b6;
          (r, b8) = create (StoreOp splat extraABIDataAddr 0) b7
      in b8)"

text \<open>
  \<open>eravm::BuilderHelper::genLoad\<close>: the address has to be the result of an
  \<open>AddressOfOp\<close> of a global of the module.
\<close>

definition genLoad :: "val \<Rightarrow> builder \<Rightarrow> abort + val \<times> builder" where
  "genLoad addr b =
     (case addr of
        OpResult (AddressOfOp g) \<Rightarrow>
          (case lookupSymbolOfType isGlobalOp g (bmod b) of
             None \<Rightarrow> Inl AssertionFailed
           | Some globOp \<Rightarrow>
               (let alignment =
                      (if globalAddrSpace globOp = AddrSpace_Stack then ByteLen_Field
                       else ByteLen_Byte)
                in Inr (create (LoadOp addr alignment) b)))
      | _ \<Rightarrow> Inl AssertionFailed)"

subsection \<open>Lowering of \<open>sol.object\<close>\<close>

text \<open>The parameter types of the entry function: the loop that fills \<open>inTys\<close>.\<close>

definition entryInTys :: "mtype list" where
  "entryInTys =
     (let genericAddrSpacePtrTy = LLVMPointerType AddrSpace_Generic;
          argCnt = 2 + (10 :: nat)
      in fold (\<lambda>i inTys. inTys @ [i256Ty]) [0..<argCnt - 1] [genericAddrSpacePtrTy])"

text \<open>\<open>entryBlk->getArgument(i)\<close> of a block with arguments of the types \<open>tys\<close>\<close>

definition getArgument :: "mtype list \<Rightarrow> nat \<Rightarrow> abort + val" where
  "getArgument tys i =
     (if i < length tys then Inr (BlockArgument i (tys ! i)) else Inl AssertionFailed)"

text \<open>
  \<open>rewriter.inlineRegionBefore(region, funcRegion, funcRegion.begin())\<close>: the blocks go
  to the front of the region of the function, which is the operation of the module that
  defines the symbol \<open>fname\<close>.
\<close>

fun inlineRegionBefore :: "block list \<Rightarrow> string \<Rightarrow> op list \<Rightarrow> op list" where
  "inlineRegionBefore blks fname [] = []"
| "inlineRegionBefore blks fname (x # xs) =
     (if getSymName x = Some fname then
        (case x of
           LLVMFuncOp n r a l ats fblks \<Rightarrow> LLVMFuncOp n r a l ats (blks @ fblks)
         | _ \<Rightarrow> x) # xs
      else x # inlineRegionBefore blks fname xs)"

definition blockArgs :: "block \<Rightarrow> mtype list" where
  "blockArgs blk = (case blk of Block args ops \<Rightarrow> args)"

definition blockOps :: "block \<Rightarrow> op list" where
  "blockOps blk = (case blk of Block args ops \<Rightarrow> ops)"

text \<open>
  The loop over the body of the object that moves the region of every nested object to
  the runtime function and erases the nested object.
\<close>

fun moveRuntimeObjects :: "op list \<Rightarrow> builder \<Rightarrow> abort + builder" where
  "moveRuntimeObjects [] b = Inr b"
| "moveRuntimeObjects (x # xs) b =
     (case x of
        SolObjectOp n blk \<Rightarrow>
          (if endswith n ''_deployed'' then
             moveRuntimeObjects xs (b\<lparr>bmod := inlineRegionBefore [blk] ''__runtime'' (bmod b)\<rparr>)
           else Inl AssertionFailed)
      | _ \<Rightarrow> moveRuntimeObjects xs b)"

text \<open>
  The loop that stores the arguments from index 2 on to the global array of the extra ABI
  data. The element type attribute that the code sets on the new \<open>GEPOp\<close> is its last
  field.
\<close>

definition storeExtraABIData :: "mtype list \<Rightarrow> op \<Rightarrow> val \<Rightarrow> builder \<Rightarrow> abort + builder" where
  "storeExtraABIData inTys globExtraABIDataDef globExtraABIData b =
     fold (\<lambda>i acc. bindE acc (\<lambda>b0.
             (let (c0, b1) = getConst 0 b0;
                  (ci, b2) = getConst (int i) b1;
                  (gep, b3) =
                    create (GEPOp (LLVMPointerType (globalAddrSpace globExtraABIDataDef))
                              (globalType globExtraABIDataDef) globExtraABIData [c0, ci]
                              (Some (globalType globExtraABIDataDef))) b2
              in bindE (getArgument inTys i) (\<lambda>arg.
                   (let (r, b4) = create (StoreOp arg gep 32) b3 in Inr b4)))))
       [2..<length inTys] (Inr b)"

text \<open>
  The operations of the entry block, for an object that is not a runtime object. The
  result is the builder state after the last operation; by then the body of the object,
  without the nested objects, which have been erased, is the first block of the creation
  function, and the bodies of the nested objects are blocks of the runtime function.
\<close>

definition entrySequence :: "block \<Rightarrow> builder \<Rightarrow> abort + builder" where
  "entrySequence body b =
     (let inTys = entryInTys;
          bA = initGlobs b;
          (globCallDataPtrDef, bB) = getOrInsertPtrGlobalOp GlobCallDataPtr AddrSpace_Generic bA;
          (globCallDataPtr, bC) = create (AddressOfOp (globalName globCallDataPtrDef)) bB
      in
      bindE (getArgument inTys ArgIndexCallDataABI) (\<lambda>argCallDataABI.
      (let (r1, bD) = create (StoreOp argCallDataABI globCallDataPtr 32) bC;
           (abiLen, bE) = getABILen globCallDataPtr bD
       in
       bindE (getGlobalOp GlobCallDataSize bE) (\<lambda>globCallDataSzDef.
       (let (globCallDataSz, bF) = create (AddressOfOp (globalName globCallDataSzDef)) bE;
            (r2, bG) = create (StoreOp abiLen globCallDataSz 32) bF
        in
        bindE (genLoad globCallDataSz bG) (\<lambda>(callDataSz, bH).
        (let (retDataABIInitializer, bI) =
               create (GEPOp (LLVMPointerType (globalAddrSpace globCallDataPtrDef))
                         (MlirIntegerType BitLen_Byte) argCallDataABI [callDataSz] None) bH;
             storeRetDataABIInitializer = (\<lambda>name bX.
               (let (globDef, bY) = getOrInsertPtrGlobalOp name AddrSpace_Generic bX;
                    (globAddr, bZ) = create (AddressOfOp (globalName globDef)) bY;
                    (r, bW) = create (StoreOp retDataABIInitializer globAddr 32) bZ
                in bW));
             bJ = storeRetDataABIInitializer GlobRetDataPtr bI;
             bK = storeRetDataABIInitializer GlobActivePtr bJ
         in
         bindE (getGlobalOp GlobCallFlags bK) (\<lambda>globCallFlagsDef.
         (let (globCallFlags, bL) = create (AddressOfOp (globalName globCallFlagsDef)) bK
          in
          bindE (getArgument inTys ArgIndexCallFlags) (\<lambda>argCallFlags.
          (let (r3, bM) = create (StoreOp argCallFlags globCallFlags 32) bL
           in
           bindE (getGlobalOp GlobExtraABIData bM) (\<lambda>globExtraABIDataDef.
           (let (globExtraABIData, bN) =
                  create (AddressOfOp (globalName globExtraABIDataDef)) bM
            in
            bindE (storeExtraABIData inTys globExtraABIDataDef globExtraABIData bN) (\<lambda>bO.
            (let (cOne, bP) = getConst 1 bO;
                 (deployCallFlag, bQ) = create (AndIOp argCallFlags cOne) bP;
                 (cOne', bR) = getConst 1 bQ;
                 (isDeployCallFlag, bS) = create (CmpIOp CmpEq deployCallFlag cOne') bR;
                 (runtimeFunc, bT) = getOrInsertRuntimeFuncOp ''__runtime'' LLVMVoidType [] bS
             in
             bindE (moveRuntimeObjects (blockOps body) bT) (\<lambda>bU.
             (let (deployFunc, bV) = getOrInsertCreationFuncOp ''__deploy'' LLVMVoidType [] bU;
                  deployBody =
                    Block (blockArgs body) (filter (\<lambda>x. \<not> isObjectOp x) (blockOps body));
                  bW = bV\<lparr>bmod := inlineRegionBefore [deployBody] ''__deploy'' (bmod bV)\<rparr>;
                  (ifOp, bX) =
                    create (IfOp isDeployCallFlag
                              [LLVMCallOp ''__deploy'' [], YieldOp]
                              [LLVMCallOp ''__runtime'' [], YieldOp]) bW;
                  (r4, bY) = create UnreachableOp bX
              in Inr bY)))))))))))))))))"

text \<open>
  \<open>ObjectOpLowering::matchAndRewrite\<close> for the object \<open>SolObjectOp name body\<close>, an
  operation of the module body \<open>m\<close>; the result is the new module body. The entry
  function is created at the end of the module body, every later insertion is at its
  start, and no lookup asks for the name of the entry function: the function is put
  together here once its block is complete. Erasing the object removes it from the
  module body.
\<close>

definition ObjectOpLowering :: "string \<Rightarrow> block \<Rightarrow> op list \<Rightarrow> abort + op list" where
  "ObjectOpLowering name body m =
     (if endswith name ''_deployed'' then
        (let (runtimeFunc, b1) =
               getOrInsertRuntimeFuncOp ''__runtime'' LLVMVoidType [] \<lparr>bmod = m, bops = []\<rparr>;
             m2 = inlineRegionBefore [body] ''__runtime'' (bmod b1)
         in Inr (remove1 (SolObjectOp name body) m2))
      else
        bindE (entrySequence body \<lparr>bmod = m, bops = []\<rparr>) (\<lambda>b'.
          Inr (remove1 (SolObjectOp name body) (bmod b')
               @ [FuncOp ''__entry'' entryInTys [i256Ty] [Block entryInTys (bops b')]])))"

section \<open>The lowering of the AST\<close>

text \<open>
  The Solidity types that the pass distinguishes. The pass compares types by the
  address of the type object: integer types are unique for their width and sign, and a
  rational number type carries the identity of its object as its first field. The other
  fields of a rational number type are what \<open>isFractional()\<close> and \<open>integerType()\<close>
  return, \<open>None\<close> being the null pointer.
\<close>

datatype int_ty = IntTy (numBits: nat) (isSigned: bool)

datatype soltype =
    IntegerType int_ty
  | RationalNumberType nat bool "int_ty option"
  | OtherType string

datatype token = Add | Mul | OtherToken string

text \<open>
  Expressions carry their annotated type; a literal carries the value that
  \<open>literalValue\<close> gives, an identifier the declaration that it refers to.
\<close>

datatype expression =
    Literal soltype int
  | Identifier soltype nat
  | BinaryOperation soltype token expression expression
  | OtherExpression soltype

text \<open>
  The statements of a function body, as the visitor sees them: only \<open>Return\<close> has a
  \<open>visit\<close> of its own, a statement that contains statements (\<open>BlockStatement\<close>
  stands for the block, the conditional and the loops) is walked through, and nothing
  happens at any other node.
\<close>

datatype statement =
    Return "expression option"
  | BlockStatement "statement list"
  | OtherStatement

record function_definition =
  fname :: string
  parameters :: "(nat \<times> soltype) list"
  returnParameters :: "(nat \<times> soltype) list"
  fbody :: "statement list"

record contract_definition =
  cname :: string
  definedFunctions :: "function_definition list"

text \<open>
  \<open>solUnimplemented\<close> and \<open>solUnimplementedAssert\<close> throw an
  \<open>UnimplementedFeatureError\<close> with a message. Calling a member through the null
  pointer that \<open>integerType()\<close> may return is a failure of its own.
\<close>

datatype failure = UnimplementedFeatureError string | NullDereference

text \<open>
  The state of the pass: the operations created at the insertion point, oldest first,
  and the map from declarations to the values of their storage.
\<close>

record gen =
  gops :: "op list"
  varMemRef :: "nat \<rightharpoonup> val"

definition gcreate :: "op \<Rightarrow> gen \<Rightarrow> val \<times> gen" where
  "gcreate x g = (OpResult x, g\<lparr>gops := gops g @ [x]\<rparr>)"

text \<open>\<open>SolidityToMLIRPass::type\<close>\<close>

definition type :: "soltype \<Rightarrow> failure + mtype" where
  "type ty =
     (case ty of
        IntegerType i \<Rightarrow> Inr (MlirIntegerType (numBits i))
      | RationalNumberType obj fractional intTy \<Rightarrow>
          (if fractional then Inl (UnimplementedFeatureError ''Unhandled type\<newline>'')
           else
             (case intTy of
                None \<Rightarrow> Inl NullDereference
              | Some i \<Rightarrow> Inr (MlirIntegerType (numBits i))))
      | OtherType n \<Rightarrow> Inl (UnimplementedFeatureError ''Unhandled type\<newline>''))"

text \<open>
  \<open>getMemRef\<close> and \<open>setMemRef\<close>. Reading a \<open>std::map\<close> with \<open>operator[]\<close> at a
  key that it does not have adds the key with a default value, here the null value.
\<close>

definition getMemRef :: "nat \<Rightarrow> gen \<Rightarrow> val \<times> gen" where
  "getMemRef decl g =
     (case varMemRef g decl of
        Some v \<Rightarrow> (v, g)
      | None \<Rightarrow> (NullValue, g\<lparr>varMemRef := (varMemRef g)(decl \<mapsto> NullValue)\<rparr>))"

definition setMemRef :: "nat \<Rightarrow> val \<Rightarrow> gen \<Rightarrow> gen" where
  "setMemRef decl addr g = g\<lparr>varMemRef := (varMemRef g)(decl \<mapsto> addr)\<rparr>"

text \<open>\<open>SolidityToMLIRPass::genCast\<close>, with its local function \<open>getAsIntTy\<close>\<close>

definition getAsIntTy :: "soltype \<Rightarrow> int_ty option" where
  "getAsIntTy ty =
     (case ty of
        IntegerType i \<Rightarrow> Some i
      | RationalNumberType obj fractional intTy \<Rightarrow> intTy
      | OtherType n \<Rightarrow> None)"

definition genCast :: "val \<Rightarrow> soltype \<Rightarrow> soltype \<Rightarrow> gen \<Rightarrow> failure + val \<times> gen" where
  "genCast v srcTy dstTy g =
     (if srcTy = dstTy then Inr (v, g)
      else
        (case (getAsIntTy srcTy, getAsIntTy dstTy) of
           (Some srcIntTy, Some dstIntTy) \<Rightarrow>
             (if numBits dstIntTy > numBits srcIntTy then
                bindE (type (IntegerType dstIntTy)) (\<lambda>t.
                  Inr (if isSigned dstIntTy then gcreate (ExtSIOp t v) g
                       else gcreate (ExtUIOp t v) g))
              else Inl (UnimplementedFeatureError ''Unhandled cast\<newline>''))
         | _ \<Rightarrow> Inl (UnimplementedFeatureError ''Unhandled cast\<newline>'')))"

text \<open>\<open>SolidityToMLIRPass::genExpr(Literal const *)\<close>\<close>

definition genExprLiteral :: "soltype \<Rightarrow> int \<Rightarrow> gen \<Rightarrow> failure + val \<times> gen" where
  "genExprLiteral ty v g =
     (case ty of
        RationalNumberType obj fractional intTy \<Rightarrow>
          (if fractional then Inl (UnimplementedFeatureError ''Unhandled literal\<newline>'')
           else
             (case intTy of
                None \<Rightarrow> Inl NullDereference
              | Some i \<Rightarrow> bindE (type ty) (\<lambda>t. Inr (gcreate (ConstantOp t v) g))))
      | _ \<Rightarrow> Inl (UnimplementedFeatureError ''Unhandled literal\<newline>''))"

definition exprType :: "expression \<Rightarrow> soltype" where
  "exprType e =
     (case e of
        Literal ty v \<Rightarrow> ty
      | Identifier ty decl \<Rightarrow> ty
      | BinaryOperation ty tok l r \<Rightarrow> ty
      | OtherExpression ty \<Rightarrow> ty)"

text \<open>
  \<open>SolidityToMLIRPass::genExpr(Expression const *, std::optional<Type const *>)\<close> and
  \<open>SolidityToMLIRPass::genExpr(BinaryOperation const *)\<close>. The second argument of
  \<open>genExprCast\<close> is the value \<open>val\<close> that the branches of the first function assign;
  an expression of no handled kind leaves it null.
\<close>

definition genExprCast ::
  "expression \<Rightarrow> val \<Rightarrow> soltype option \<Rightarrow> gen \<Rightarrow> failure + val \<times> gen" where
  "genExprCast e v resTy g =
     (case resTy of
        Some t \<Rightarrow> genCast v (exprType e) t g
      | None \<Rightarrow> Inr (v, g))"

function (sequential) genExpr :: "expression \<Rightarrow> soltype option \<Rightarrow> gen \<Rightarrow> failure + val \<times> gen"
  and genExprBinOp ::
    "soltype \<Rightarrow> token \<Rightarrow> expression \<Rightarrow> expression \<Rightarrow> gen \<Rightarrow> failure + val \<times> gen" where
  "genExpr (Literal ty n) resTy g =
     bindE (genExprLiteral ty n g) (\<lambda>(v, g1). genExprCast (Literal ty n) v resTy g1)"
| "genExpr (Identifier ty decl) resTy g =
     (let (addr, g1) = getMemRef decl g in Inr (gcreate (MemRefLoadOp addr) g1))"
| "genExpr (BinaryOperation ty tok l r) resTy g =
     bindE (genExprBinOp ty tok l r g)
       (\<lambda>(v, g1). genExprCast (BinaryOperation ty tok l r) v resTy g1)"
| "genExpr (OtherExpression ty) resTy g = genExprCast (OtherExpression ty) NullValue resTy g"
| "genExprBinOp resTy tok l r g =
     bindE (genExpr l (Some resTy) g) (\<lambda>(lhs, g1).
     bindE (genExpr r (Some resTy) g1) (\<lambda>(rhs, g2).
       (case tok of
          Add \<Rightarrow> Inr (gcreate (AddIOp lhs rhs) g2)
        | Mul \<Rightarrow> Inr (gcreate (MulIOp lhs rhs) g2)
        | OtherToken n \<Rightarrow> Inl (UnimplementedFeatureError ''Unhandled binary operation''))))"
  by pat_completeness auto
termination
  by (relation "measure (\<lambda>x. case x of
        Inl (e, resTy, g) \<Rightarrow> 2 * size e
      | Inr (ty, tok, l, r, g) \<Rightarrow> 2 * (size l + size r) + 1)") auto

text \<open>
  \<open>SolidityToMLIRPass::visit(Return const &)\<close> in the function \<open>currFunc\<close>. The return
  parameter types of its function type are the types of its declared return parameters.
\<close>

definition visitReturn :: "function_definition \<Rightarrow> expression option \<Rightarrow> gen \<Rightarrow> failure + gen" where
  "visitReturn currFunc astExpr g =
     (let currFuncResTys = map snd (returnParameters currFunc) in
      if currFuncResTys = [] then Inr g
      else if length currFuncResTys \<noteq> 1 then
        Inl (UnimplementedFeatureError ''TODO: Impl multivalued return'')
      else
        (case astExpr of
           Some e \<Rightarrow>
             bindE (genExpr e (Some (hd currFuncResTys)) g) (\<lambda>(expr, g1).
               Inr (snd (gcreate (FuncReturnOp [expr]) g1)))
         | None \<Rightarrow> Inl (UnimplementedFeatureError ''NYI: Empty return'')))"

text \<open>\<open>func.accept(*this)\<close>: the walk through the statements of the body\<close>

fun acceptStatement :: "function_definition \<Rightarrow> statement \<Rightarrow> gen \<Rightarrow> failure + gen"
  and acceptStatements :: "function_definition \<Rightarrow> statement list \<Rightarrow> gen \<Rightarrow> failure + gen" where
  "acceptStatement currFunc (Return e) g = visitReturn currFunc e g"
| "acceptStatement currFunc (BlockStatement ss) g = acceptStatements currFunc ss g"
| "acceptStatement currFunc OtherStatement g = Inr g"
| "acceptStatements currFunc [] g = Inr g"
| "acceptStatements currFunc (s # ss) g =
     bindE (acceptStatement currFunc s g) (\<lambda>g1. acceptStatements currFunc ss g1)"

text \<open>A loop whose body can fail: the first failure ends it.\<close>

fun mapE :: "('a \<Rightarrow> 'e + 'b) \<Rightarrow> 'a list \<Rightarrow> 'e + 'b list" where
  "mapE f [] = Inr []"
| "mapE f (x # xs) = bindE (f x) (\<lambda>y. bindE (mapE f xs) (\<lambda>ys. Inr (y # ys)))"

fun foldE :: "('a \<Rightarrow> 's \<Rightarrow> 'e + 's) \<Rightarrow> 'a list \<Rightarrow> 's \<Rightarrow> 'e + 's" where
  "foldE f [] s = Inr s"
| "foldE f (x # xs) s = bindE (f x s) (\<lambda>s1. foldE f xs s1)"

text \<open>
  \<open>SolidityToMLIRPass::run(FunctionDefinition const &)\<close>. The operations of the
  function go to its entry block; afterwards the insertion point is behind the new
  function.
\<close>

definition storeParameter :: "nat \<times> mtype \<times> (nat \<times> soltype) \<Rightarrow> gen \<Rightarrow> gen" where
  "storeParameter p g =
     (case p of (i, inpTy, param) \<Rightarrow>
        (let arg = BlockArgument i inpTy;
             memRefTy = MemRefType inpTy;
             (addr, g1) = gcreate (MemRefAllocaOp memRefTy i) g;
             g2 = setMemRef (fst param) addr g1;
             (r, g3) = gcreate (MemRefStoreOp arg addr) g2
         in g3))"

definition runFunction :: "function_definition \<Rightarrow> gen \<Rightarrow> failure + gen" where
  "runFunction func g =
     bindE (mapE (\<lambda>param. type (snd param)) (parameters func)) (\<lambda>inpTys.
     bindE (mapE (\<lambda>param. type (snd param)) (returnParameters func)) (\<lambda>outTys.
       if \<not> length outTys \<le> 1 then
         Inl (UnimplementedFeatureError ''TODO: Impl multivalued return'')
       else
         (let gEntry = g\<lparr>gops := []\<rparr>;
              gParams = fold storeParameter
                          (zip [0..<length inpTys] (zip inpTys (parameters func))) gEntry
          in
          bindE (acceptStatements func (fbody func) gParams) (\<lambda>gBody.
            (let gRet = (if outTys = [] then snd (gcreate (FuncReturnOp []) gBody) else gBody)
             in Inr (gRet\<lparr>gops := gops g @
                       [FuncOp (fname func) inpTys outTys [Block inpTys (gops gRet)]]\<rparr>))))))"

text \<open>\<open>SolidityToMLIRPass::run(ContractDefinition const &)\<close>\<close>

definition runContract :: "contract_definition \<Rightarrow> gen \<Rightarrow> failure + gen" where
  "runContract cont g =
     bindE (foldE runFunction (definedFunctions cont) (g\<lparr>gops := []\<rparr>)) (\<lambda>g1.
       Inr (g1\<lparr>gops := gops g @ [SolContractOp (cname cont) (gops g1)]\<rparr>))"

text \<open>
  \<open>runSolidityToMLIRPass\<close>. The verifier of MLIR and \<open>doJob\<close>, which runs the lowering
  pass on the module and emits the result, are parameters.
\<close>

definition runSolidityToMLIRPass ::
  "contract_definition list \<Rightarrow> (op list \<Rightarrow> bool) \<Rightarrow> (op list \<Rightarrow> bool) \<Rightarrow> failure + bool" where
  "runSolidityToMLIRPass contracts verify doJob =
     bindE (foldE runContract contracts \<lparr>gops = [], varMemRef = Map.empty\<rparr>) (\<lambda>g.
       if \<not> verify (gops g) then Inr False else Inr (doJob (gops g)))"

text \<open>
  The expressions of the \<open>Return\<close> statements that the walk through a body reaches.
\<close>

fun returnsIn :: "statement \<Rightarrow> expression option list"
  and returnsInList :: "statement list \<Rightarrow> expression option list" where
  "returnsIn (Return e) = [e]"
| "returnsIn (BlockStatement ss) = returnsInList ss"
| "returnsIn OtherStatement = []"
| "returnsInList [] = []"
| "returnsInList (s # ss) = returnsIn s @ returnsInList ss"

definition isIdentifier :: "expression \<Rightarrow> bool" where
  "isIdentifier e = (case e of Identifier ty decl \<Rightarrow> True | _ \<Rightarrow> False)"

text \<open>
  Reading the result of the object lowering: the entry function, which is created at the
  end of the module body and stays its last operation, the types of its parameters, the
  operations of its entry block, the values stored to the address of a global, and, for
  the stores of a block argument through a \<open>GEPOp\<close> with a constant last index, the
  number of the argument with the indexed type and that index.
\<close>

definition entryFunc :: "abort + op list \<Rightarrow> op option" where
  "entryFunc r =
     (case r of
        Inr m' \<Rightarrow>
          (case rev m' of
             [] \<Rightarrow> None
           | x # xs \<Rightarrow> if getSymName x = Some ''__entry'' then Some x else None)
      | Inl e \<Rightarrow> None)"

definition entryBlockOps :: "abort + op list \<Rightarrow> op list" where
  "entryBlockOps r =
     (case entryFunc r of
        Some (FuncOp n ins outs [Block args ops]) \<Rightarrow> ops
      | _ \<Rightarrow> [])"

definition entryArgTypes :: "abort + op list \<Rightarrow> mtype list option" where
  "entryArgTypes r =
     (case entryFunc r of
        Some (FuncOp n ins outs blks) \<Rightarrow> Some ins
      | _ \<Rightarrow> None)"

definition storesTo :: "string \<Rightarrow> op list \<Rightarrow> val list" where
  "storesTo g ops =
     concat (map (\<lambda>x. case x of
                         StoreOp v a al \<Rightarrow> (if a = OpResult (AddressOfOp g) then [v] else [])
                       | _ \<Rightarrow> []) ops)"

definition indexedStores :: "op list \<Rightarrow> (nat \<times> mtype \<times> int) list" where
  "indexedStores ops =
     concat (map (\<lambda>x. case x of
                         StoreOp (BlockArgument i t)
                           (OpResult (GEPOp rt bt base [c0, OpResult (ConstantOp ct k)] et)) al
                           \<Rightarrow> [(i, bt, k)]
                       | _ \<Rightarrow> []) ops)"

subsection \<open>Auxiliary notions for the proofs\<close>

text \<open>
  The two components of the result of \<open>getOrInsertGlobalOp\<close> and of
  \<open>getOrInsertLLVMFuncOp\<close> as functions of the module body: the operation that is
  returned, and the module body afterwards. \<open>runtimeModule\<close> is the module body after the
  loop \<open>moveRuntimeObjects\<close>, and \<open>nestedDeployed\<close> says that the name of every object
  among the operations ends with \<open>_deployed\<close>, which the loop asserts.
\<close>

definition globalOf ::
  "string \<Rightarrow> mtype \<Rightarrow> nat \<Rightarrow> nat \<Rightarrow> linkage \<Rightarrow> attr option \<Rightarrow> op list \<Rightarrow> op" where
  "globalOf n ty al sp l i m =
     (case lookupSymbolOfType isGlobalOp n m of
        Some found \<Rightarrow> found
      | None \<Rightarrow> GlobalOp n ty al sp l i)"

definition withGlobal ::
  "string \<Rightarrow> mtype \<Rightarrow> nat \<Rightarrow> nat \<Rightarrow> linkage \<Rightarrow> attr option \<Rightarrow> op list \<Rightarrow> op list" where
  "withGlobal n ty al sp l i m =
     (case lookupSymbolOfType isGlobalOp n m of
        Some found \<Rightarrow> m
      | None \<Rightarrow> GlobalOp n ty al sp l i # m)"

definition funcOf ::
  "string \<Rightarrow> mtype \<Rightarrow> mtype list \<Rightarrow> linkage \<Rightarrow> (string \<times> attr) list \<Rightarrow> op list \<Rightarrow> op" where
  "funcOf n r a l ats m =
     (case lookupSymbolOfType isLLVMFuncOp n m of
        Some found \<Rightarrow> found
      | None \<Rightarrow> LLVMFuncOp n r a l ats [])"

definition withFunc ::
  "string \<Rightarrow> mtype \<Rightarrow> mtype list \<Rightarrow> linkage \<Rightarrow> (string \<times> attr) list \<Rightarrow> op list \<Rightarrow> op list" where
  "withFunc n r a l ats m =
     (case lookupSymbolOfType isLLVMFuncOp n m of
        Some found \<Rightarrow> m
      | None \<Rightarrow> LLVMFuncOp n r a l ats [] # m)"

fun runtimeModule :: "op list \<Rightarrow> op list \<Rightarrow> op list" where
  "runtimeModule [] m = m"
| "runtimeModule (x # xs) m =
     (case x of
        SolObjectOp n blk \<Rightarrow> runtimeModule xs (inlineRegionBefore [blk] ''__runtime'' m)
      | _ \<Rightarrow> runtimeModule xs m)"

definition nestedDeployed :: "op list \<Rightarrow> bool" where
  "nestedDeployed ops =
     list_all (\<lambda>x. case x of SolObjectOp n blk \<Rightarrow> endswith n ''_deployed'' | _ \<Rightarrow> True) ops"

text \<open>
  The encoding that the ABI-length round trip speaks of, written after the
  specification: the 32-bit length field of a 256-bit pointer value starts at bit
  \<open>3 * 32\<close>; encoding replaces that field and keeps every other bit.
\<close>

definition encodeABILen :: "256 word \<Rightarrow> nat \<Rightarrow> 256 word" where
  "encodeABILen p L = (p AND NOT (push_bit 96 (mask 32))) OR push_bit 96 (word_of_nat L)"

section \<open>Properties\<close>

lemma UINT_MAX_mask: "(word_of_int UINT_MAX :: 256 word) = mask 32"
  by (simp add: UINT_MAX_def mask_eq_exp_minus_1)

lemma decode_encodeABILen:
  assumes "L < 2 ^ 32"
  shows "drop_bit 96 (encodeABILen p L) AND mask 32 = word_of_nat L"
proof -
  have small: "take_bit 32 (word_of_nat L :: 256 word) = word_of_nat L"
    using assms by (simp add: take_bit_of_nat take_bit_nat_eq_self)
  have "drop_bit 96 (encodeABILen p L) AND mask 32
      = take_bit 32 (word_of_nat L :: 256 word)"
    unfolding encodeABILen_def
    by (rule bit_eqI) (auto simp add: bit_simps)
  then show ?thesis using small by simp
qed

lemma getABILen_value:
  "fst (getABILen ptr b) =
     OpResult (AndOp
       (OpResult (LShrOp (OpResult (PtrToIntOp (MlirIntegerType 256) ptr))
                         (OpResult (ConstantOp (MlirIntegerType 256) 96))))
       (OpResult (ConstantOp (MlirIntegerType 256) UINT_MAX)))"
  by (simp add: getABILen_def getConst_def create_def i256Ty_def BitLen_X32_def
      BitLen_Byte_def ByteLen_X32_def)

text \<open>
  C3. For every length \<open>L\<close> below \<open>2 ^ 32\<close>: when the integer value of the pointer
  carries \<open>L\<close> in its length field at bit offset 96 (whatever its other bits \<open>p\<close> are),
  the value that \<open>getABILen\<close> computes for that pointer (logical shift right by 96,
  then the mask \<open>UINT_MAX\<close>) is exactly \<open>L\<close>.
\<close>

theorem C3_abi_length_round_trip:
  assumes "L < 2 ^ 32" and "ptrval ptr = encodeABILen p L"
  shows "eval_val ptrval (fst (getABILen ptr b)) = Some (word_of_nat L)"
proof -
  have "eval_val ptrval (fst (getABILen ptr b))
      = Some (drop_bit 96 (ptrval ptr) AND word_of_int UINT_MAX)"
    by (simp add: getABILen_value)
  then show ?thesis
    using assms by (simp add: UINT_MAX_mask decode_encodeABILen)
qed

theorem C3_abi_length_round_trip_witness:
  "(1234 :: nat) < 2 ^ 32 \<and>
   (\<lambda>q. encodeABILen 5 1234) (BlockArgument 0 (LLVMPointerType 3)) = encodeABILen 5 1234 \<and>
   eval_val (\<lambda>q. encodeABILen 5 1234)
     (fst (getABILen (BlockArgument 0 (LLVMPointerType 3)) \<lparr>bmod = [], bops = []\<rparr>))
     = Some 1234"
  using C3_abi_length_round_trip [of 1234 "\<lambda>q. encodeABILen 5 1234"
      "BlockArgument 0 (LLVMPointerType 3)" 5 "\<lparr>bmod = [], bops = []\<rparr>"]
  by simp

lemma find_nearest:
  "\<forall>p\<in>set inner. \<not> P p \<Longrightarrow> P f \<Longrightarrow> find P (inner @ f # outer) = Some f"
  by (induction inner) auto

lemma find_none: "\<forall>p\<in>set xs. \<not> P p \<Longrightarrow> find P xs = None"
  by (induction xs) auto

text \<open>
  C2. A \<open>sol.return\<close> in creation context, whatever its offset and length operands (so
  also for the literals 0 and 0), at any position \<open>c\<close> of the module, in a block with
  the operations \<open>pre\<close> before it and \<open>post\<close> after it: the lowering returns, and in
  the module body afterwards the block is \<open>pre\<close>, then new operations, then \<open>post\<close>.
  The new operations stand where the \<open>sol.return\<close> stood, which is erased and is not
  one of them. Among them those with an effect are, in this order, a store of the field
  width 32 to the auxiliary heap at offset 256, a store of 0 (the number of immutables)
  at offset 256 + 32, a call of \<open>__return\<close> with the offset 256, the sum
  \<open>0 * 2 + 64\<close>, whose value is 64, and the mode \<open>UseAuxHeap\<close>, and an
  \<open>unreachable\<close>. Nothing else of the module changes, but for the declaration of
  \<open>__return\<close> at its start if it had none.
\<close>

theorem C2_creation_return_shape:
  assumes "inRuntimeContext (SolReturnOp lhs rhs)
             (parentsOf c (pre @ SolReturnOp lhs rhs # post)) = Inr False"
  shows "\<exists>r' decls new.
        ReturnOpLowering (SolReturnOp lhs rhs)
          \<lparr>rdecls = [], rpos = c, rbefore = pre, rafter = SolReturnOp lhs rhs # post\<rparr> = Inr r' \<and>
        moduleOf \<lparr>rdecls = [], rpos = c, rbefore = pre, rafter = SolReturnOp lhs rhs # post\<rparr>
          = plug c (pre @ SolReturnOp lhs rhs # post) \<and>
        moduleOf r' = decls @ plug c (pre @ new @ post) \<and>
        r' = \<lparr>rdecls = decls, rpos = c, rbefore = pre @ new, rafter = post\<rparr> \<and>
        set decls \<subseteq> {LLVMFuncOp ''__return'' LLVMVoidType [i256Ty, i256Ty, i256Ty] External [] []} \<and>
        SolReturnOp lhs rhs \<notin> set new \<and>
        filter hasEffect new =
          [StoreOp (OpResult (ConstantOp i256Ty 32))
             (OpResult (IntToPtrOp (LLVMPointerType AddrSpace_HeapAuxiliary)
                (OpResult (ConstantOp i256Ty 256)))) 0,
           StoreOp (OpResult (ConstantOp i256Ty 0))
             (OpResult (IntToPtrOp (LLVMPointerType AddrSpace_HeapAuxiliary)
                (OpResult (ConstantOp i256Ty (256 + 32))))) 0,
           FuncCallOp ''__return''
             [OpResult (ConstantOp i256Ty 256),
              OpResult (AddIOp
                 (OpResult (MulIOp (OpResult (ConstantOp i256Ty 0))
                                   (OpResult (ConstantOp i256Ty 2))))
                 (OpResult (ConstantOp i256Ty (2 * 32)))),
              OpResult (ConstantOp i256Ty (int UseAuxHeap))],
           UnreachableOp] \<and>
        eval_val ptrval (OpResult (AddIOp
                 (OpResult (MulIOp (OpResult (ConstantOp i256Ty 0))
                                   (OpResult (ConstantOp i256Ty 2))))
                 (OpResult (ConstantOp i256Ty (2 * 32))))) = Some 64"
proof (cases "lookupSymbolOfType isLLVMFuncOp ''__return''
                (plug c (pre @ SolReturnOp lhs rhs # post))")
  case None
  then show ?thesis
    using assms
    by (simp add: ReturnOpLowering_def bindE_def getOrInsertReturn_def
        getOrInsertLLVMFuncSym_def getConstAt_def createAt_def eraseOp_def moduleOf_def
        Let_def hasEffect_def HeapAuxOffsetCtorRetData_def ByteLen_Field_def i256Ty_def)
next
  case (Some found)
  then show ?thesis
    using assms
    by (simp add: ReturnOpLowering_def bindE_def getOrInsertReturn_def
        getOrInsertLLVMFuncSym_def getConstAt_def createAt_def eraseOp_def moduleOf_def
        Let_def hasEffect_def HeapAuxOffsetCtorRetData_def ByteLen_Field_def i256Ty_def)
qed

theorem C2_creation_return_shape_witness:
  "inRuntimeContext (SolReturnOp (OpResult (ConstantOp i256Ty 0)) (OpResult (ConstantOp i256Ty 0)))
      (parentsOf [([], ObjectFrame ''object'' [], [])]
         ([OtherOp ''sol.mstore'' [OpResult (ConstantOp i256Ty 0), OpResult (ConstantOp i256Ty 42)]]
          @ SolReturnOp (OpResult (ConstantOp i256Ty 0)) (OpResult (ConstantOp i256Ty 0)) # []))
      = Inr False \<and>
   (\<exists>r' decls new.
        ReturnOpLowering (SolReturnOp (OpResult (ConstantOp i256Ty 0)) (OpResult (ConstantOp i256Ty 0)))
          \<lparr>rdecls = [], rpos = [([], ObjectFrame ''object'' [], [])],
            rbefore = [OtherOp ''sol.mstore''
                         [OpResult (ConstantOp i256Ty 0), OpResult (ConstantOp i256Ty 42)]],
            rafter = [SolReturnOp (OpResult (ConstantOp i256Ty 0))
                        (OpResult (ConstantOp i256Ty 0))]\<rparr> = Inr r' \<and>
        moduleOf r' =
          decls @ [SolObjectOp ''object'' (Block []
            ([OtherOp ''sol.mstore''
                [OpResult (ConstantOp i256Ty 0), OpResult (ConstantOp i256Ty 42)]] @ new))] \<and>
        SolReturnOp (OpResult (ConstantOp i256Ty 0)) (OpResult (ConstantOp i256Ty 0)) \<notin> set new \<and>
        filter hasEffect new =
          [StoreOp (OpResult (ConstantOp i256Ty 32))
             (OpResult (IntToPtrOp (LLVMPointerType 2)
                (OpResult (ConstantOp i256Ty 256)))) 0,
           StoreOp (OpResult (ConstantOp i256Ty 0))
             (OpResult (IntToPtrOp (LLVMPointerType 2)
                (OpResult (ConstantOp i256Ty 288)))) 0,
           FuncCallOp ''__return''
             [OpResult (ConstantOp i256Ty 256),
              OpResult (AddIOp
                 (OpResult (MulIOp (OpResult (ConstantOp i256Ty 0))
                                   (OpResult (ConstantOp i256Ty 2))))
                 (OpResult (ConstantOp i256Ty 64))),
              OpResult (ConstantOp i256Ty 2)],
           UnreachableOp])"
proof -
  have ctx: "inRuntimeContext
      (SolReturnOp (OpResult (ConstantOp i256Ty 0)) (OpResult (ConstantOp i256Ty 0)))
      (parentsOf [([], ObjectFrame ''object'' [], [])]
         ([OtherOp ''sol.mstore'' [OpResult (ConstantOp i256Ty 0), OpResult (ConstantOp i256Ty 42)]]
          @ SolReturnOp (OpResult (ConstantOp i256Ty 0)) (OpResult (ConstantOp i256Ty 0)) # []))
      = Inr False"
    by (simp add: inRuntimeContext_def isLLVMFuncOp_def isObjectOp_def endswith_def fill_def)
  show ?thesis
    using ctx C2_creation_return_shape [OF ctx, of "\<lambda>p. 0"]
    by (auto simp add: AddrSpace_HeapAuxiliary_def UseAuxHeap_def fill_def)
qed

text \<open>
  C7, as the claim states it, fails: below an LLVM function that carries no \<open>isRuntime\<close>
  attribute, inside the object \<open>Foo_deployed\<close>, the classification does not go on to
  the object and answer runtime; the assertion on the attribute fails.
\<close>

theorem C7_context_classification_counterexample:
  "inRuntimeContext (SolReturnOp NullValue NullValue)
     [LLVMFuncOp ''f'' LLVMVoidType [] External [] [],
      SolObjectOp ''Foo_deployed'' (Block [] []),
      OtherOp ''builtin.module'' []] \<noteq> Inr True \<and>
   inRuntimeContext (SolReturnOp NullValue NullValue)
     [LLVMFuncOp ''f'' LLVMVoidType [] External [] [],
      SolObjectOp ''Foo_deployed'' (Block [] []),
      OtherOp ''builtin.module'' []] = Inl AssertionFailed"
  by (simp add: inRuntimeContext_def isLLVMFuncOp_def isObjectOp_def getAttr_def)

text \<open>
  C7, amended. The context of an operation \<open>x\<close> that is neither a function nor an
  object is decided by the nearest enclosing LLVM function \<open>f\<close> alone whenever there is
  one: if \<open>f\<close> carries the boolean attribute \<open>isRuntime\<close>, its value is the answer,
  and if it does not, the assertion on the attribute fails, whatever objects enclose
  \<open>x\<close>. Only if no LLVM function encloses \<open>x\<close>, the answer is whether the name of the
  nearest enclosing object ends with \<open>_deployed\<close>. If neither an LLVM function nor an
  object encloses \<open>x\<close>, the classification ends in \<open>llvm_unreachable\<close>.
\<close>

theorem C7_context_classification:
  assumes "\<not> isLLVMFuncOp x" and "\<not> isObjectOp x"
  shows "((\<forall>p\<in>set inner. \<not> isLLVMFuncOp p) \<and> isLLVMFuncOp f \<and>
            getAttr f ''isRuntime'' = Some (BoolAttr v)
          \<longrightarrow> inRuntimeContext x (inner @ f # outer) = Inr v) \<and>
         ((\<forall>p\<in>set inner. \<not> isLLVMFuncOp p) \<and> isLLVMFuncOp f \<and>
            (\<forall>w. getAttr f ''isRuntime'' \<noteq> Some (BoolAttr w))
          \<longrightarrow> inRuntimeContext x (inner @ f # outer) = Inl AssertionFailed) \<and>
         ((\<forall>p\<in>set (inner @ outer). \<not> isLLVMFuncOp p) \<and> (\<forall>p\<in>set inner. \<not> isObjectOp p)
          \<longrightarrow> inRuntimeContext x (inner @ SolObjectOp n blk # outer)
                = Inr (endswith n ''_deployed'')) \<and>
         ((\<forall>p\<in>set parents. \<not> isLLVMFuncOp p \<and> \<not> isObjectOp p)
          \<longrightarrow> inRuntimeContext x parents
                = Inl (LLVMUnreachable ''op has no parent FuncOp or ObjectOp''))"
proof (intro conjI impI)
  assume h: "(\<forall>p\<in>set inner. \<not> isLLVMFuncOp p) \<and> isLLVMFuncOp f \<and>
            getAttr f ''isRuntime'' = Some (BoolAttr v)"
  then have "find isLLVMFuncOp (inner @ f # outer) = Some f"
    by (simp add: find_nearest)
  then show "inRuntimeContext x (inner @ f # outer) = Inr v"
    using assms h by (simp add: inRuntimeContext_def)
next
  assume h: "(\<forall>p\<in>set inner. \<not> isLLVMFuncOp p) \<and> isLLVMFuncOp f \<and>
            (\<forall>w. getAttr f ''isRuntime'' \<noteq> Some (BoolAttr w))"
  then have "find isLLVMFuncOp (inner @ f # outer) = Some f"
    by (simp add: find_nearest)
  then show "inRuntimeContext x (inner @ f # outer) = Inl AssertionFailed"
    using assms h by (auto simp add: inRuntimeContext_def split: option.splits attr.splits)
next
  assume h: "(\<forall>p\<in>set (inner @ outer). \<not> isLLVMFuncOp p) \<and> (\<forall>p\<in>set inner. \<not> isObjectOp p)"
  have nf: "\<forall>p\<in>set (inner @ SolObjectOp n blk # outer). \<not> isLLVMFuncOp p"
    using h by (auto simp add: isLLVMFuncOp_def)
  have "find isLLVMFuncOp (inner @ SolObjectOp n blk # outer) = None"
    by (rule find_none [OF nf])
  moreover have "find isObjectOp (inner @ SolObjectOp n blk # outer) = Some (SolObjectOp n blk)"
    using h by (simp add: find_nearest isObjectOp_def)
  ultimately show "inRuntimeContext x (inner @ SolObjectOp n blk # outer)
                = Inr (endswith n ''_deployed'')"
    using assms by (simp add: inRuntimeContext_def)
next
  assume h: "\<forall>p\<in>set parents. \<not> isLLVMFuncOp p \<and> \<not> isObjectOp p"
  then have "find isLLVMFuncOp parents = None" and "find isObjectOp parents = None"
    by (simp_all add: find_none)
  then show "inRuntimeContext x parents
                = Inl (LLVMUnreachable ''op has no parent FuncOp or ObjectOp'')"
    using assms by (simp add: inRuntimeContext_def)
qed

theorem C7_context_classification_witness:
  "inRuntimeContext (SolReturnOp NullValue NullValue)
     ([IfOp NullValue [] []] @
      LLVMFuncOp ''__deploy'' LLVMVoidType [] Private [(''isRuntime'', BoolAttr False)] []
        # [SolObjectOp ''Foo_deployed'' (Block [] []), OtherOp ''builtin.module'' []]) = Inr False \<and>
   inRuntimeContext (SolReturnOp NullValue NullValue)
     ([IfOp NullValue [] []] @
      LLVMFuncOp ''f'' LLVMVoidType [] External [] []
        # [SolObjectOp ''Foo_deployed'' (Block [] []), OtherOp ''builtin.module'' []])
     = Inl AssertionFailed \<and>
   inRuntimeContext (SolReturnOp NullValue NullValue)
     ([IfOp NullValue [] []] @ SolObjectOp ''Foo_deployed'' (Block [] [])
        # [SolObjectOp ''Foo'' (Block [] []), OtherOp ''builtin.module'' []]) = Inr True \<and>
   inRuntimeContext (SolReturnOp NullValue NullValue) [OtherOp ''builtin.module'' []]
     = Inl (LLVMUnreachable ''op has no parent FuncOp or ObjectOp'')"
  using
    C7_context_classification [of "SolReturnOp NullValue NullValue" "[IfOp NullValue [] []]"
      "LLVMFuncOp ''__deploy'' LLVMVoidType [] Private [(''isRuntime'', BoolAttr False)] []"
      False "[SolObjectOp ''Foo_deployed'' (Block [] []), OtherOp ''builtin.module'' []]"
      "''Foo_deployed''" "Block [] []" "[OtherOp ''builtin.module'' []]"]
    C7_context_classification [of "SolReturnOp NullValue NullValue" "[IfOp NullValue [] []]"
      "LLVMFuncOp ''f'' LLVMVoidType [] External [] []"
      False "[SolObjectOp ''Foo_deployed'' (Block [] []), OtherOp ''builtin.module'' []]"
      "''Foo_deployed''" "Block [] []" "[OtherOp ''builtin.module'' []]"]
    C7_context_classification [of "SolReturnOp NullValue NullValue" "[IfOp NullValue [] []]"
      "YieldOp" False "[SolObjectOp ''Foo'' (Block [] []), OtherOp ''builtin.module'' []]"
      "''Foo_deployed''" "Block [] []" "[OtherOp ''builtin.module'' []]"]
  by (simp add: isLLVMFuncOp_def isObjectOp_def getAttr_def endswith_def)

subsection \<open>The object lowering\<close>

lemmas eravm_consts =
  AddrSpace_Stack_def AddrSpace_Generic_def ByteLen_Field_def ByteLen_Byte_def BitLen_Byte_def
  BitLen_X32_def ByteLen_X32_def GlobHeapMemPtr_def GlobCallDataSize_def GlobRetDataSz_def
  GlobCallFlags_def GlobExtraABIData_def GlobCallDataPtr_def GlobRetDataPtr_def
  GlobActivePtr_def ArgIndexCallDataABI_def ArgIndexCallFlags_def UINT_MAX_def i256Ty_def

lemma entryInTys_list:
  "entryInTys =
     [LLVMPointerType 3, MlirIntegerType 256, MlirIntegerType 256, MlirIntegerType 256,
      MlirIntegerType 256, MlirIntegerType 256, MlirIntegerType 256, MlirIntegerType 256,
      MlirIntegerType 256, MlirIntegerType 256, MlirIntegerType 256, MlirIntegerType 256]"
  by code_simp

lemma upt_2_12: "[2..<12] = [2, 3, 4, 5, 6, 7, 8, 9, 10, 11 :: nat]"
  by code_simp

text \<open>The helpers that look a symbol up, as functions of the module body.\<close>

lemma getOrInsertGlobalOp_eq:
  "getOrInsertGlobalOp n ty al sp l i b =
     (globalOf n ty al sp l i (bmod b), b\<lparr>bmod := withGlobal n ty al sp l i (bmod b)\<rparr>)"
  by (simp add: getOrInsertGlobalOp_def globalOf_def withGlobal_def Let_def split: option.splits)

lemma getOrInsertLLVMFuncOp_eq:
  "getOrInsertLLVMFuncOp n r a l ats b =
     (funcOf n r a l ats (bmod b), b\<lparr>bmod := withFunc n r a l ats (bmod b)\<rparr>)"
  by (simp add: getOrInsertLLVMFuncOp_def funcOf_def withFunc_def Let_def split: option.splits)

lemma lookupGlobal_name:
  "lookupSymbolOfType isGlobalOp n m = Some g \<Longrightarrow> globalName g = n"
  by (auto simp add: lookupSymbolOfType_def lookupSymbol_def find_Some_iff getSymName_def
      isGlobalOp_def globalName_def split: option.splits if_splits op.splits)

lemma globalName_globalOf: "globalName (globalOf n ty al sp l i m) = n"
proof (cases "lookupSymbolOfType isGlobalOp n m")
  case None
  then show ?thesis by (simp add: globalOf_def globalName_def)
next
  case (Some found)
  then show ?thesis by (simp add: globalOf_def lookupGlobal_name)
qed

lemma globalType_globalOf:
  "globalType (globalOf n ty al sp l i m) =
     (case lookupSymbolOfType isGlobalOp n m of Some g \<Rightarrow> globalType g | None \<Rightarrow> ty)"
  by (simp add: globalOf_def globalType_def split: option.splits)

lemma lookup_withGlobal:
  "lookupSymbolOfType isGlobalOp n' (withGlobal n ty al sp l i m) =
     (if n' = n then Some (globalOf n ty al sp l i m) else lookupSymbolOfType isGlobalOp n' m)"
  by (auto simp add: withGlobal_def globalOf_def lookupSymbolOfType_def lookupSymbol_def
      getSymName_def isGlobalOp_def split: option.splits)

lemma moveRuntimeObjects_eq:
  "nestedDeployed ops \<Longrightarrow>
     moveRuntimeObjects ops b = Inr (b\<lparr>bmod := runtimeModule ops (bmod b)\<rparr>)"
proof (induction ops arbitrary: b)
  case Nil
  then show ?case by simp
next
  case (Cons x xs)
  then show ?case
    by (cases x) (simp_all add: nestedDeployed_def)
qed

lemma moveRuntimeObjects_fails:
  "\<not> nestedDeployed ops \<Longrightarrow> moveRuntimeObjects ops b = Inl AssertionFailed"
proof (induction ops arbitrary: b)
  case Nil
  then show ?case by (simp add: nestedDeployed_def)
next
  case (Cons x xs)
  then show ?case
    by (cases x) (simp_all add: nestedDeployed_def)
qed

lemmas symbolic_defs =
  create_def getConst_def getConstSplat_def getOrInsertGlobalOp_eq getOrInsertIntGlobalOp_def
  getOrInsertPtrGlobalOp_def getGlobalOp_def lookup_withGlobal globalName_globalOf
  globalType_globalOf getOrInsertLLVMFuncOp_eq getOrInsertRuntimeFuncOp_def
  getOrInsertCreationFuncOp_def getArgument_def genLoad_def getABILen_def bindE_def

lemmas entry_defs =
  entrySequence_def storeExtraABIData_def initGlobs_def initInt_def entryInTys_list upt_2_12

text \<open>
  The entry block for an arbitrary body and module: what it stores to the globals of the
  calldata pointer and of the calldata size, and at which indices of which array type it
  stores the arguments from the third on.
\<close>

lemma entrySequence_returns:
  assumes "nestedDeployed (blockOps body)"
  shows "\<exists>b'. entrySequence body \<lparr>bmod = m, bops = []\<rparr> = Inr b' \<and>
     storesTo GlobCallDataPtr (bops b') = [BlockArgument 0 (LLVMPointerType 3)] \<and>
     storesTo GlobCallDataSize (bops b') =
       [OpResult (ConstantOp (MlirIntegerType 256) 0),
        OpResult (AndOp
          (OpResult (LShrOp
             (OpResult (PtrToIntOp (MlirIntegerType 256)
                (OpResult (AddressOfOp ''ptr_calldata''))))
             (OpResult (ConstantOp (MlirIntegerType 256) 96))))
          (OpResult (ConstantOp (MlirIntegerType 256) 4294967295)))] \<and>
     indexedStores (bops b') =
       map (\<lambda>i. (i,
                  (case lookupSymbolOfType isGlobalOp ''extra_abi_data'' m of
                     Some g \<Rightarrow> globalType g
                   | None \<Rightarrow> LLVMArrayType (MlirIntegerType 256) 10),
                  int i))
         [2, 3, 4, 5, 6, 7, 8, 9, 10, 11]"
  using assms
  by (simp add: entry_defs symbolic_defs moveRuntimeObjects_eq eravm_consts Let_def
      storesTo_def indexedStores_def)

lemma entrySequence_aborts:
  assumes "\<not> nestedDeployed (blockOps body)"
  shows "entrySequence body \<lparr>bmod = m, bops = []\<rparr> = Inl AssertionFailed"
  using assms
  by (simp add: entry_defs symbolic_defs moveRuntimeObjects_fails eravm_consts Let_def)

lemma entryFunc_last:
  "entryFunc (Inr (pre @ [FuncOp ''__entry'' ins outs blks]))
     = Some (FuncOp ''__entry'' ins outs blks)"
  by (simp add: entryFunc_def getSymName_def)

lemma ObjectOpLowering_outer:
  assumes "\<not> endswith name ''_deployed''" and "nestedDeployed (blockOps body)"
  shows "\<exists>pre ops.
     ObjectOpLowering name body m
       = Inr (pre @ [FuncOp ''__entry'' entryInTys [i256Ty] [Block entryInTys ops]]) \<and>
     storesTo GlobCallDataPtr ops = [BlockArgument 0 (LLVMPointerType 3)] \<and>
     storesTo GlobCallDataSize ops =
       [OpResult (ConstantOp (MlirIntegerType 256) 0),
        OpResult (AndOp
          (OpResult (LShrOp
             (OpResult (PtrToIntOp (MlirIntegerType 256)
                (OpResult (AddressOfOp ''ptr_calldata''))))
             (OpResult (ConstantOp (MlirIntegerType 256) 96))))
          (OpResult (ConstantOp (MlirIntegerType 256) 4294967295)))] \<and>
     indexedStores ops =
       map (\<lambda>i. (i,
                  (case lookupSymbolOfType isGlobalOp ''extra_abi_data'' m of
                     Some g \<Rightarrow> globalType g
                   | None \<Rightarrow> LLVMArrayType (MlirIntegerType 256) 10),
                  int i))
         [2, 3, 4, 5, 6, 7, 8, 9, 10, 11]"
proof -
  obtain b' where
    b': "entrySequence body \<lparr>bmod = m, bops = []\<rparr> = Inr b'" and
    st: "storesTo GlobCallDataPtr (bops b') = [BlockArgument 0 (LLVMPointerType 3)]"
        "storesTo GlobCallDataSize (bops b') =
          [OpResult (ConstantOp (MlirIntegerType 256) 0),
           OpResult (AndOp
             (OpResult (LShrOp
                (OpResult (PtrToIntOp (MlirIntegerType 256)
                   (OpResult (AddressOfOp ''ptr_calldata''))))
                (OpResult (ConstantOp (MlirIntegerType 256) 96))))
             (OpResult (ConstantOp (MlirIntegerType 256) 4294967295)))]"
        "indexedStores (bops b') =
          map (\<lambda>i. (i,
                  (case lookupSymbolOfType isGlobalOp ''extra_abi_data'' m of
                     Some g \<Rightarrow> globalType g
                   | None \<Rightarrow> LLVMArrayType (MlirIntegerType 256) 10),
                  int i))
            [2, 3, 4, 5, 6, 7, 8, 9, 10, 11]"
    using entrySequence_returns [OF assms(2), of m] by blast
  have "ObjectOpLowering name body m
      = Inr (remove1 (SolObjectOp name body) (bmod b')
             @ [FuncOp ''__entry'' entryInTys [i256Ty] [Block entryInTys (bops b')]])"
    using assms(1) b' by (simp add: ObjectOpLowering_def bindE_def)
  then show ?thesis using st by blast
qed

lemma ObjectOpLowering_outer_aborts:
  assumes "\<not> endswith name ''_deployed''" and "\<not> nestedDeployed (blockOps body)"
  shows "ObjectOpLowering name body m = Inl AssertionFailed"
  using assms entrySequence_aborts [of body m] by (simp add: ObjectOpLowering_def bindE_def)

lemma Foo_outer:
  "\<not> endswith ''Foo'' ''_deployed''" "nestedDeployed (blockOps (Block [] []))"
  by (simp_all add: endswith_def nestedDeployed_def blockOps_def)

text \<open>
  C1, as the claim states it, fails: for the object \<open>Foo\<close> with an empty body in a
  module that holds nothing else, the entry function has 12 parameters, not 13.
\<close>

theorem C1_entry_arity_counterexample:
  "map_option length
     (entryArgTypes
        (ObjectOpLowering ''Foo'' (Block [] []) [SolObjectOp ''Foo'' (Block [] [])]))
   \<noteq> Some 13"
proof -
  obtain pre ops where
    "ObjectOpLowering ''Foo'' (Block [] []) [SolObjectOp ''Foo'' (Block [] [])]
       = Inr (pre @ [FuncOp ''__entry'' entryInTys [i256Ty] [Block entryInTys ops]])"
    using ObjectOpLowering_outer [OF Foo_outer] by blast
  then show ?thesis
    by (simp add: entryArgTypes_def entryFunc_last entryInTys_list)
qed

text \<open>
  C1, amended. The lowering of an object that is not a runtime object, in any module:
  when the name of every object nested in its body ends with \<open>_deployed\<close>, the lowering
  returns a module whose last operation is the function \<open>__entry\<close>, and that function
  has exactly 12 parameters, in its signature and as the arguments of its entry block:
  one pointer of the generic address space (the calldata ABI argument) followed by 11
  parameters of the 256-bit word type (the call flags and the 10 words of extra ABI
  data); its one result is a word. Otherwise the assertion on the name of the nested
  object fails and there is no module.
\<close>

theorem C1_entry_arity:
  assumes "\<not> endswith name ''_deployed''"
  shows "(nestedDeployed (blockOps body) \<longrightarrow>
            (\<exists>pre ops. ObjectOpLowering name body m
               = Inr (pre @ [FuncOp ''__entry''
                   (LLVMPointerType AddrSpace_Generic # replicate 11 (MlirIntegerType 256))
                   [MlirIntegerType 256]
                   [Block (LLVMPointerType AddrSpace_Generic # replicate 11 (MlirIntegerType 256))
                      ops]]))) \<and>
         (\<not> nestedDeployed (blockOps body) \<longrightarrow>
            ObjectOpLowering name body m = Inl AssertionFailed) \<and>
         length (LLVMPointerType AddrSpace_Generic # replicate 11 (MlirIntegerType 256)) = 12"
proof (intro conjI impI)
  have tys: "entryInTys = LLVMPointerType AddrSpace_Generic # replicate 11 (MlirIntegerType 256)"
    by code_simp
  assume "nestedDeployed (blockOps body)"
  then show "\<exists>pre ops. ObjectOpLowering name body m
               = Inr (pre @ [FuncOp ''__entry''
                   (LLVMPointerType AddrSpace_Generic # replicate 11 (MlirIntegerType 256))
                   [MlirIntegerType 256]
                   [Block (LLVMPointerType AddrSpace_Generic # replicate 11 (MlirIntegerType 256))
                      ops]])"
    using ObjectOpLowering_outer [OF assms, of body m] unfolding tys i256Ty_def by blast
next
  assume "\<not> nestedDeployed (blockOps body)"
  then show "ObjectOpLowering name body m = Inl AssertionFailed"
    using assms by (rule ObjectOpLowering_outer_aborts [rotated])
next
  show "length (LLVMPointerType AddrSpace_Generic # replicate 11 (MlirIntegerType 256)) = 12"
    by simp
qed

theorem C1_entry_arity_witness:
  "(\<exists>pre ops.
      ObjectOpLowering ''Foo'' (Block [] [SolObjectOp ''Foo_deployed'' (Block [] [])])
        [SolObjectOp ''Foo'' (Block [] [SolObjectOp ''Foo_deployed'' (Block [] [])])]
      = Inr (pre @ [FuncOp ''__entry''
                  (LLVMPointerType 3 # replicate 11 (MlirIntegerType 256))
                  [MlirIntegerType 256]
                  [Block (LLVMPointerType 3 # replicate 11 (MlirIntegerType 256)) ops]])) \<and>
   ObjectOpLowering ''Foo'' (Block [] [SolObjectOp ''Bar'' (Block [] [])])
        [SolObjectOp ''Foo'' (Block [] [SolObjectOp ''Bar'' (Block [] [])])]
      = Inl AssertionFailed"
proof -
  have name: "\<not> endswith ''Foo'' ''_deployed''"
    by (simp add: endswith_def)
  show ?thesis
    using
      C1_entry_arity [OF name, of "Block [] [SolObjectOp ''Foo_deployed'' (Block [] [])]"
        "[SolObjectOp ''Foo'' (Block [] [SolObjectOp ''Foo_deployed'' (Block [] [])])]"]
      C1_entry_arity [OF name, of "Block [] [SolObjectOp ''Bar'' (Block [] [])]"
        "[SolObjectOp ''Foo'' (Block [] [SolObjectOp ''Bar'' (Block [] [])])]"]
    by (simp add: nestedDeployed_def blockOps_def endswith_def AddrSpace_Generic_def)
qed

text \<open>
  C4. Whenever the lowering of an object that is not a runtime object returns a module,
  the entry block stores the block argument 0, the ABI pointer, to the global
  \<open>ptr_calldata\<close>, and the values that it stores to the global \<open>calldatasize\<close> are the
  initial 0 and the length field decoded from \<open>ptrtoint\<close> of the address of the global
  \<open>ptr_calldata\<close>: the operand of \<open>ptrtoint\<close> is the result of the \<open>AddressOfOp\<close>,
  not the block argument 0.
\<close>

theorem C4_calldatasize_decoded_from_global_address:
  assumes "\<not> endswith name ''_deployed''" and "ObjectOpLowering name body m = Inr m'"
  shows "storesTo GlobCallDataPtr (entryBlockOps (ObjectOpLowering name body m))
           = [BlockArgument 0 (LLVMPointerType 3)] \<and>
         storesTo GlobCallDataSize (entryBlockOps (ObjectOpLowering name body m))
           = [OpResult (ConstantOp (MlirIntegerType 256) 0),
              OpResult (AndOp
                (OpResult (LShrOp
                   (OpResult (PtrToIntOp (MlirIntegerType 256)
                      (OpResult (AddressOfOp ''ptr_calldata''))))
                   (OpResult (ConstantOp (MlirIntegerType 256) 96))))
                (OpResult (ConstantOp (MlirIntegerType 256) 4294967295)))]"
proof (cases "nestedDeployed (blockOps body)")
  case False
  then show ?thesis
    using assms ObjectOpLowering_outer_aborts [of name body m] by simp
next
  case True
  then obtain pre ops where
    "ObjectOpLowering name body m
       = Inr (pre @ [FuncOp ''__entry'' entryInTys [i256Ty] [Block entryInTys ops]])"
    "storesTo GlobCallDataPtr ops = [BlockArgument 0 (LLVMPointerType 3)]"
    "storesTo GlobCallDataSize ops =
       [OpResult (ConstantOp (MlirIntegerType 256) 0),
        OpResult (AndOp
          (OpResult (LShrOp
             (OpResult (PtrToIntOp (MlirIntegerType 256)
                (OpResult (AddressOfOp ''ptr_calldata''))))
             (OpResult (ConstantOp (MlirIntegerType 256) 96))))
          (OpResult (ConstantOp (MlirIntegerType 256) 4294967295)))]"
    using ObjectOpLowering_outer [OF assms(1), of body m] by blast
  then show ?thesis
    by (simp add: entryBlockOps_def entryFunc_last)
qed

theorem C4_calldatasize_decoded_from_global_address_witness:
  "storesTo GlobCallDataPtr
     (entryBlockOps
        (ObjectOpLowering ''Foo'' (Block [] []) [SolObjectOp ''Foo'' (Block [] [])]))
     = [BlockArgument 0 (LLVMPointerType 3)] \<and>
   storesTo GlobCallDataSize
     (entryBlockOps
        (ObjectOpLowering ''Foo'' (Block [] []) [SolObjectOp ''Foo'' (Block [] [])]))
     = [OpResult (ConstantOp (MlirIntegerType 256) 0),
        OpResult (AndOp
          (OpResult (LShrOp
             (OpResult (PtrToIntOp (MlirIntegerType 256)
                (OpResult (AddressOfOp ''ptr_calldata''))))
             (OpResult (ConstantOp (MlirIntegerType 256) 96))))
          (OpResult (ConstantOp (MlirIntegerType 256) 4294967295)))]"
proof -
  obtain pre ops where
    "ObjectOpLowering ''Foo'' (Block [] []) [SolObjectOp ''Foo'' (Block [] [])]
       = Inr (pre @ [FuncOp ''__entry'' entryInTys [i256Ty] [Block entryInTys ops]])"
    using ObjectOpLowering_outer [OF Foo_outer] by blast
  then show ?thesis
    using C4_calldatasize_decoded_from_global_address [OF Foo_outer(1)] by blast
qed

text \<open>
  C8. Whenever the lowering of an object that is not a runtime object returns a module,
  the stores of the entry arguments through a \<open>GEPOp\<close> are these: the argument number
  \<open>i\<close>, for \<open>i\<close> from 2 to 11, is stored at the index \<open>i\<close> of the array type of the
  global \<open>extra_abi_data\<close>, which is the array of 10 words unless the module already had
  a global of that name. So the \<open>k\<close>-th argument behind the call flags is stored at
  index \<open>k + 2\<close>, not at index \<open>k\<close>, and the last two indices, 10 and 11, are outside
  the array of 10 words.
\<close>

theorem C8_extra_abi_data_indices:
  assumes "\<not> endswith name ''_deployed''" and "ObjectOpLowering name body m = Inr m'"
  shows "indexedStores (entryBlockOps (ObjectOpLowering name body m)) =
           map (\<lambda>i. (i,
                      (case lookupSymbolOfType isGlobalOp ''extra_abi_data'' m of
                         Some g \<Rightarrow> globalType g
                       | None \<Rightarrow> LLVMArrayType (MlirIntegerType 256) 10),
                      int i))
             [2, 3, 4, 5, 6, 7, 8, 9, 10, 11]"
proof (cases "nestedDeployed (blockOps body)")
  case False
  then show ?thesis
    using assms ObjectOpLowering_outer_aborts [of name body m] by simp
next
  case True
  then obtain pre ops where
    "ObjectOpLowering name body m
       = Inr (pre @ [FuncOp ''__entry'' entryInTys [i256Ty] [Block entryInTys ops]])"
    "indexedStores ops =
       map (\<lambda>i. (i,
                  (case lookupSymbolOfType isGlobalOp ''extra_abi_data'' m of
                     Some g \<Rightarrow> globalType g
                   | None \<Rightarrow> LLVMArrayType (MlirIntegerType 256) 10),
                  int i))
         [2, 3, 4, 5, 6, 7, 8, 9, 10, 11]"
    using ObjectOpLowering_outer [OF assms(1), of body m] by blast
  then show ?thesis
    by (simp add: entryBlockOps_def entryFunc_last)
qed

theorem C8_extra_abi_data_indices_witness:
  "indexedStores
     (entryBlockOps
        (ObjectOpLowering ''Foo'' (Block [] []) [SolObjectOp ''Foo'' (Block [] [])]))
     = [(2, LLVMArrayType (MlirIntegerType 256) 10, 2),
        (3, LLVMArrayType (MlirIntegerType 256) 10, 3),
        (4, LLVMArrayType (MlirIntegerType 256) 10, 4),
        (5, LLVMArrayType (MlirIntegerType 256) 10, 5),
        (6, LLVMArrayType (MlirIntegerType 256) 10, 6),
        (7, LLVMArrayType (MlirIntegerType 256) 10, 7),
        (8, LLVMArrayType (MlirIntegerType 256) 10, 8),
        (9, LLVMArrayType (MlirIntegerType 256) 10, 9),
        (10, LLVMArrayType (MlirIntegerType 256) 10, 10),
        (11, LLVMArrayType (MlirIntegerType 256) 10, 11)]"
proof -
  obtain pre ops where
    "ObjectOpLowering ''Foo'' (Block [] []) [SolObjectOp ''Foo'' (Block [] [])]
       = Inr (pre @ [FuncOp ''__entry'' entryInTys [i256Ty] [Block entryInTys ops]])"
    using ObjectOpLowering_outer [OF Foo_outer] by blast
  then show ?thesis
    using C8_extra_abi_data_indices [OF Foo_outer(1)]
    by (simp add: lookupSymbolOfType_def lookupSymbol_def getSymName_def)
qed

subsection \<open>The lowering of the AST\<close>

lemma isl_bindE: "isl m \<Longrightarrow> isl (bindE m f)"
  by (cases m) (simp_all add: bindE_def)

lemma isl_bindE_cont: "(\<And>x. isl (f x)) \<Longrightarrow> isl (bindE m f)"
  by (cases m) (simp_all add: bindE_def)

lemma mapE_length: "mapE f xs = Inr ys \<Longrightarrow> length ys = length xs"
proof (induction xs arbitrary: ys)
  case Nil
  then show ?case by simp
next
  case (Cons x xs)
  then show ?case
    by (auto simp add: bindE_def split: sum.splits)
qed

lemma mapE_all_Inr:
  "(\<And>x. x \<in> set xs \<Longrightarrow> \<exists>y. f x = Inr y) \<Longrightarrow> \<exists>ys. mapE f xs = Inr ys"
proof (induction xs)
  case Nil
  then show ?case by simp
next
  case (Cons x xs)
  then obtain y where "f x = Inr y" by auto
  moreover obtain ys where "mapE f xs = Inr ys" using Cons by auto
  ultimately show ?case by (simp add: bindE_def)
qed

lemma foldE_fails:
  "x \<in> set xs \<Longrightarrow> (\<And>s. isl (f x s)) \<Longrightarrow> isl (foldE f xs s)"
proof (induction xs arbitrary: s)
  case Nil
  then show ?case by simp
next
  case (Cons y ys)
  show ?case
  proof (cases "f y s")
    case (Inl e)
    then show ?thesis by (simp add: bindE_def)
  next
    case (Inr s1)
    have "y \<noteq> x" using Inr Cons.prems(2) [of s] by auto
    then have "x \<in> set ys" using Cons.prems(1) by simp
    then have "isl (foldE f ys s1)" using Cons.IH Cons.prems(2) by blast
    then show ?thesis using Inr by (simp add: bindE_def)
  qed
qed

lemma runFunction_two_results:
  assumes "length (returnParameters func) = 2"
  shows "isl (runFunction func g)"
proof (cases "mapE (\<lambda>param. type (snd param)) (parameters func)")
  case (Inl e)
  then show ?thesis by (simp add: runFunction_def bindE_def)
next
  case inp: (Inr inpTys)
  show ?thesis
  proof (cases "mapE (\<lambda>param. type (snd param)) (returnParameters func)")
    case (Inl e)
    then show ?thesis using inp by (simp add: runFunction_def bindE_def)
  next
    case (Inr outTys)
    then have "length outTys = 2" using assms mapE_length by fastforce
    then show ?thesis using inp Inr by (simp add: runFunction_def bindE_def)
  qed
qed

lemma runFunction_two_results_message:
  assumes "length (returnParameters func) = 2"
    and "\<And>p. p \<in> set (parameters func @ returnParameters func) \<Longrightarrow> \<exists>t. type (snd p) = Inr t"
  shows "runFunction func g = Inl (UnimplementedFeatureError ''TODO: Impl multivalued return'')"
proof -
  obtain inpTys where inp: "mapE (\<lambda>param. type (snd param)) (parameters func) = Inr inpTys"
    using mapE_all_Inr [of "parameters func" "\<lambda>param. type (snd param)"] assms(2) by auto
  obtain outTys where out: "mapE (\<lambda>param. type (snd param)) (returnParameters func) = Inr outTys"
    using mapE_all_Inr [of "returnParameters func" "\<lambda>param. type (snd param)"] assms(2) by auto
  have "length outTys = 2" using assms(1) out mapE_length by fastforce
  then show ?thesis using inp out by (simp add: runFunction_def bindE_def)
qed

lemma mapE_Inl: "mapE f xs = Inl e \<Longrightarrow> \<exists>x\<in>set xs. f x = Inl e"
proof (induction xs)
  case Nil
  then show ?case by simp
next
  case (Cons x xs)
  then show ?case
    by (auto simp add: bindE_def split: sum.splits)
qed

lemma runFunction_two_results_unimplemented:
  assumes "length (returnParameters func) = 2"
    and "\<And>p. p \<in> set (parameters func @ returnParameters func)
           \<Longrightarrow> type (snd p) \<noteq> Inl NullDereference"
  shows "\<exists>msg. runFunction func g = Inl (UnimplementedFeatureError msg)"
proof (cases "mapE (\<lambda>param. type (snd param)) (parameters func)")
  case (Inl e)
  then have "e \<noteq> NullDereference"
    using mapE_Inl [of "\<lambda>param. type (snd param)" "parameters func" e] assms(2) by auto
  then obtain msg where "e = UnimplementedFeatureError msg" by (cases e) auto
  then show ?thesis using Inl by (simp add: runFunction_def bindE_def)
next
  case inp: (Inr inpTys)
  show ?thesis
  proof (cases "mapE (\<lambda>param. type (snd param)) (returnParameters func)")
    case (Inl e)
    then have "e \<noteq> NullDereference"
      using mapE_Inl [of "\<lambda>param. type (snd param)" "returnParameters func" e] assms(2) by auto
    then obtain msg where "e = UnimplementedFeatureError msg" by (cases e) auto
    then show ?thesis using inp Inl by (simp add: runFunction_def bindE_def)
  next
    case (Inr outTys)
    then have "length outTys = 2" using assms(1) mapE_length by fastforce
    then show ?thesis using inp Inr by (simp add: runFunction_def bindE_def)
  qed
qed

lemma genCast_narrowing:
  assumes "getAsIntTy srcTy = Some a" and "getAsIntTy dstTy = Some d"
    and "numBits d < numBits a"
  shows "genCast v srcTy dstTy g = Inl (UnimplementedFeatureError ''Unhandled cast\<newline>'')"
proof -
  have "srcTy \<noteq> dstTy" using assms by auto
  then show ?thesis using assms by (simp add: genCast_def)
qed

lemma genExpr_narrowing_fails:
  assumes "\<not> isIdentifier e" and "getAsIntTy (exprType e) = Some a"
    and "getAsIntTy dstTy = Some d" and "numBits d < numBits a"
  shows "isl (genExpr e (Some dstTy) g)"
proof -
  have cast: "\<And>v g1. isl (genExprCast e v (Some dstTy) g1)"
    using assms genCast_narrowing [of "exprType e" a dstTy d] by (simp add: genExprCast_def)
  show ?thesis
  proof (cases e)
    case (Literal ty n)
    then show ?thesis using cast
      by (auto simp add: case_prod_beta intro: isl_bindE_cont)
  next
    case (Identifier ty decl)
    then show ?thesis using assms(1) by (simp add: isIdentifier_def)
  next
    case (BinaryOperation ty tok l r)
    then show ?thesis using cast
      by (auto simp add: case_prod_beta simp del: genExprBinOp.simps intro: isl_bindE_cont)
  next
    case (OtherExpression ty)
    then show ?thesis using cast by simp
  qed
qed

lemma visitReturn_narrowing_fails:
  assumes "map snd (returnParameters func) = [dstTy]"
    and "\<not> isIdentifier e" and "getAsIntTy (exprType e) = Some a"
    and "getAsIntTy dstTy = Some d" and "numBits d < numBits a"
  shows "isl (visitReturn func (Some e) g)"
  using assms(1) genExpr_narrowing_fails [OF assms(2-5), of g]
  by (simp add: visitReturn_def isl_bindE)

lemma accept_fails:
  "ret \<in> set (returnsIn s) \<longrightarrow> (\<forall>g. isl (visitReturn func ret g))
     \<longrightarrow> isl (acceptStatement func s g0)"
  "ret \<in> set (returnsInList ss) \<longrightarrow> (\<forall>g. isl (visitReturn func ret g))
     \<longrightarrow> isl (acceptStatements func ss g0)"
proof (induction func s g0 and func ss g0 rule: acceptStatement_acceptStatements.induct)
  case (5 currFunc s ss g)
  show ?case
  proof (intro impI)
    assume mem: "ret \<in> set (returnsInList (s # ss))"
      and fails: "\<forall>g. isl (visitReturn currFunc ret g)"
    show "isl (acceptStatements currFunc (s # ss) g)"
    proof (cases "acceptStatement currFunc s g")
      case (Inl e)
      then show ?thesis by (simp add: bindE_def)
    next
      case (Inr g1)
      then have "ret \<notin> set (returnsIn s)" using "5.IH"(1) fails by auto
      then have "ret \<in> set (returnsInList ss)" using mem by simp
      then show ?thesis using "5.IH"(2) [of g1] fails Inr by (simp add: bindE_def)
    qed
  qed
qed simp_all

lemma runFunction_accept_fails:
  assumes "\<And>g. isl (acceptStatements func (fbody func) g)"
  shows "isl (runFunction func g)"
proof -
  have inner: "\<And>inpTys outTys. isl (
       if \<not> length outTys \<le> 1 then
         Inl (UnimplementedFeatureError ''TODO: Impl multivalued return'')
       else
         (let gEntry = g\<lparr>gops := []\<rparr>;
              gParams = fold storeParameter
                          (zip [0..<length inpTys] (zip inpTys (parameters func))) gEntry
          in
          bindE (acceptStatements func (fbody func) gParams) (\<lambda>gBody.
            (let gRet = (if outTys = [] then snd (gcreate (FuncReturnOp []) gBody) else gBody)
             in Inr (gRet\<lparr>gops := gops g @
                       [FuncOp (fname func) inpTys outTys [Block inpTys (gops gRet)]]\<rparr>)))))"
    using assms by (simp add: Let_def isl_bindE)
  show ?thesis
    unfolding runFunction_def
    by (intro isl_bindE_cont inner)
qed

lemma pipeline_fails:
  assumes "c \<in> set contracts" and "func \<in> set (definedFunctions c)"
    and "\<And>g. isl (runFunction func g)"
  shows "isl (runSolidityToMLIRPass contracts verify doJob)"
proof -
  have "\<And>g. isl (runContract c g)"
    using foldE_fails [OF assms(2), of runFunction] assms(3)
    by (simp add: runContract_def isl_bindE)
  then have "isl (foldE runContract contracts \<lparr>gops = [], varMemRef = Map.empty\<rparr>)"
    using foldE_fails [OF assms(1), of runContract] by simp
  then show ?thesis by (simp add: runSolidityToMLIRPass_def isl_bindE)
qed

text \<open>
  C5. For source and destination types with integer representations \<open>a\<close> and \<open>d\<close>,
  \<open>d\<close> wider than \<open>a\<close>: \<open>genCast\<close> creates one operation and returns its result, a
  sign extension to the width of \<open>d\<close> when \<open>d\<close> is signed and a zero extension when it
  is not. For a source type that is the destination type, \<open>genCast\<close> returns the value
  it was given and creates nothing.
\<close>

theorem C5_widening_cast:
  "(getAsIntTy srcTy = Some a \<and> getAsIntTy dstTy = Some d \<and> numBits a < numBits d \<longrightarrow>
      genCast v srcTy dstTy g =
        Inr (if isSigned d
             then (OpResult (ExtSIOp (MlirIntegerType (numBits d)) v),
                   g\<lparr>gops := gops g @ [ExtSIOp (MlirIntegerType (numBits d)) v]\<rparr>)
             else (OpResult (ExtUIOp (MlirIntegerType (numBits d)) v),
                   g\<lparr>gops := gops g @ [ExtUIOp (MlirIntegerType (numBits d)) v]\<rparr>))) \<and>
   genCast v srcTy srcTy g = Inr (v, g)"
  by (auto simp add: genCast_def bindE_def type_def gcreate_def)

theorem C5_widening_cast_witness:
  "map_sum id (\<lambda>r. (fst r, gops (snd r)))
     (genCast (BlockArgument 0 (MlirIntegerType 8)) (IntegerType (IntTy 8 False))
        (IntegerType (IntTy 32 True)) \<lparr>gops = [], varMemRef = Map.empty\<rparr>)
     = Inr (OpResult (ExtSIOp (MlirIntegerType 32) (BlockArgument 0 (MlirIntegerType 8))),
            [ExtSIOp (MlirIntegerType 32) (BlockArgument 0 (MlirIntegerType 8))]) \<and>
   map_sum id (\<lambda>r. (fst r, gops (snd r)))
     (genCast (BlockArgument 0 (MlirIntegerType 8)) (RationalNumberType 1 False (Some (IntTy 8 False)))
        (IntegerType (IntTy 256 False)) \<lparr>gops = [], varMemRef = Map.empty\<rparr>)
     = Inr (OpResult (ExtUIOp (MlirIntegerType 256) (BlockArgument 0 (MlirIntegerType 8))),
            [ExtUIOp (MlirIntegerType 256) (BlockArgument 0 (MlirIntegerType 8))]) \<and>
   map_sum id (\<lambda>r. (fst r, gops (snd r)))
     (genCast (BlockArgument 0 (MlirIntegerType 8)) (IntegerType (IntTy 8 False))
        (IntegerType (IntTy 8 False)) \<lparr>gops = [], varMemRef = Map.empty\<rparr>)
     = Inr (BlockArgument 0 (MlirIntegerType 8), [])"
  using
    C5_widening_cast [of "IntegerType (IntTy 8 False)" "IntTy 8 False"
      "IntegerType (IntTy 32 True)" "IntTy 32 True" "BlockArgument 0 (MlirIntegerType 8)"
      "\<lparr>gops = [], varMemRef = Map.empty\<rparr>"]
    C5_widening_cast [of "RationalNumberType 1 False (Some (IntTy 8 False))" "IntTy 8 False"
      "IntegerType (IntTy 256 False)" "IntTy 256 False" "BlockArgument 0 (MlirIntegerType 8)"
      "\<lparr>gops = [], varMemRef = Map.empty\<rparr>"]
  by (simp add: getAsIntTy_def)

text \<open>
  C10. For two types that are not the same type and whose integer representations have
  the same width, \<open>genCast\<close> fails with the unimplemented feature error
  \<open>Unhandled cast\<close>; it does not return the value.
\<close>

theorem C10_same_width_cast_unimplemented:
  "srcTy \<noteq> dstTy \<and> getAsIntTy srcTy = Some a \<and> getAsIntTy dstTy = Some d \<and>
     numBits a = numBits d
   \<longrightarrow> genCast v srcTy dstTy g = Inl (UnimplementedFeatureError ''Unhandled cast\<newline>'')"
  by (simp add: genCast_def)

theorem C10_same_width_cast_unimplemented_witness:
  "genCast (BlockArgument 0 (MlirIntegerType 8)) (IntegerType (IntTy 8 False))
     (IntegerType (IntTy 8 True)) \<lparr>gops = [], varMemRef = Map.empty\<rparr>
     = Inl (UnimplementedFeatureError ''Unhandled cast\<newline>'') \<and>
   genCast (BlockArgument 0 (MlirIntegerType 8)) (RationalNumberType 1 False (Some (IntTy 8 False)))
     (IntegerType (IntTy 8 False)) \<lparr>gops = [], varMemRef = Map.empty\<rparr>
     = Inl (UnimplementedFeatureError ''Unhandled cast\<newline>'')"
  using
    C10_same_width_cast_unimplemented [of "IntegerType (IntTy 8 False)"
      "IntegerType (IntTy 8 True)" "IntTy 8 False" "IntTy 8 True"
      "BlockArgument 0 (MlirIntegerType 8)" "\<lparr>gops = [], varMemRef = Map.empty\<rparr>"]
    C10_same_width_cast_unimplemented [of "RationalNumberType 1 False (Some (IntTy 8 False))"
      "IntegerType (IntTy 8 False)" "IntTy 8 False" "IntTy 8 False"
      "BlockArgument 0 (MlirIntegerType 8)" "\<lparr>gops = [], varMemRef = Map.empty\<rparr>"]
  by (simp add: getAsIntTy_def)

text \<open>
  C6, evaluated. For an identifier, \<open>genExpr\<close> returns the load of the variable
  whatever result type is requested: the requested type makes no difference. For the
  variable \<open>a\<close> of type \<open>uint8\<close> and the requested type \<open>uint256\<close> the result is the
  8-bit load, and the load is the only operation created, although the cast of that
  value to \<open>uint256\<close> is a zero extension. A function
  \<open>f(uint8 a) returns (uint256) { return a; }\<close> is lowered to a function with a 256-bit
  result that returns the 8-bit load.
\<close>

theorem C6_identifier_is_not_cast:
  "genExpr (Identifier ty decl) (Some t) g = genExpr (Identifier ty decl) None g \<and>
   map_sum id (\<lambda>r. (fst r, gops (snd r)))
     (genExpr (Identifier (IntegerType (IntTy 8 False)) 0) (Some (IntegerType (IntTy 256 False)))
        \<lparr>gops = [], varMemRef = [0 \<mapsto> OpResult (MemRefAllocaOp (MemRefType (MlirIntegerType 8)) 0)]\<rparr>)
     = Inr (OpResult (MemRefLoadOp (OpResult (MemRefAllocaOp (MemRefType (MlirIntegerType 8)) 0))),
            [MemRefLoadOp (OpResult (MemRefAllocaOp (MemRefType (MlirIntegerType 8)) 0))]) \<and>
   map_sum id fst
     (genCast (OpResult (MemRefLoadOp (OpResult (MemRefAllocaOp (MemRefType (MlirIntegerType 8)) 0))))
        (IntegerType (IntTy 8 False)) (IntegerType (IntTy 256 False)) g)
     = Inr (OpResult (ExtUIOp (MlirIntegerType 256)
              (OpResult (MemRefLoadOp (OpResult (MemRefAllocaOp (MemRefType (MlirIntegerType 8)) 0)))))) \<and>
   map_sum id gops
     (runFunction \<lparr>fname = ''f'', parameters = [(0, IntegerType (IntTy 8 False))],
                   returnParameters = [(1, IntegerType (IntTy 256 False))],
                   fbody = [Return (Some (Identifier (IntegerType (IntTy 8 False)) 0))]\<rparr>
        \<lparr>gops = [], varMemRef = Map.empty\<rparr>)
     = Inr [FuncOp ''f'' [MlirIntegerType 8] [MlirIntegerType 256]
             [Block [MlirIntegerType 8]
               [MemRefAllocaOp (MemRefType (MlirIntegerType 8)) 0,
                MemRefStoreOp (BlockArgument 0 (MlirIntegerType 8))
                  (OpResult (MemRefAllocaOp (MemRefType (MlirIntegerType 8)) 0)),
                MemRefLoadOp (OpResult (MemRefAllocaOp (MemRefType (MlirIntegerType 8)) 0)),
                FuncReturnOp
                  [OpResult (MemRefLoadOp
                     (OpResult (MemRefAllocaOp (MemRefType (MlirIntegerType 8)) 0)))]]]]"
  by (simp add: getMemRef_def gcreate_def genCast_def getAsIntTy_def type_def bindE_def
      runFunction_def storeParameter_def setMemRef_def visitReturn_def Let_def)

text \<open>
  C9. A function with two declared return parameters: its lowering fails; the failure is
  an unimplemented feature error unless \<open>type\<close> meets the null integer type of a
  rational number type among the parameter types first, and it is the error of the
  multivalued return when the types of the parameters and return parameters can all be
  mapped; a \<open>Return\<close> in such a function fails with that error; and the pass over
  contracts that contain the function fails, so that the job that makes and emits the
  low-level module is never run. A cast from a 32-bit integer type to an 8-bit integer
  type fails with the unimplemented feature error of the cast; and when a function with
  one return parameter of an 8-bit integer type returns an expression, other than an
  identifier, of a type with a 32-bit integer representation, the pass fails as well.
\<close>

theorem C9_fail_fast:
  "(length (returnParameters func) = 2 \<longrightarrow>
      isl (runFunction func g) \<and>
      ((\<forall>p \<in> set (parameters func @ returnParameters func). type (snd p) \<noteq> Inl NullDereference)
         \<longrightarrow> (\<exists>msg. runFunction func g = Inl (UnimplementedFeatureError msg))) \<and>
      ((\<forall>p \<in> set (parameters func @ returnParameters func). \<exists>t. type (snd p) = Inr t) \<longrightarrow>
         runFunction func g = Inl (UnimplementedFeatureError ''TODO: Impl multivalued return'')) \<and>
      visitReturn func ret g = Inl (UnimplementedFeatureError ''TODO: Impl multivalued return'') \<and>
      (c \<in> set contracts \<and> func \<in> set (definedFunctions c) \<longrightarrow>
         isl (runSolidityToMLIRPass contracts verify doJob))) \<and>
   genCast v (IntegerType (IntTy 32 s)) (IntegerType (IntTy 8 s')) g
     = Inl (UnimplementedFeatureError ''Unhandled cast\<newline>'') \<and>
   (c' \<in> set contracts' \<and> func' \<in> set (definedFunctions c') \<and>
    map snd (returnParameters func') = [dstTy] \<and> getAsIntTy dstTy = Some d \<and> numBits d = 8 \<and>
    Some e \<in> set (returnsInList (fbody func')) \<and> \<not> isIdentifier e \<and>
    getAsIntTy (exprType e) = Some a \<and> numBits a = 32 \<longrightarrow>
      isl (runSolidityToMLIRPass contracts' verify doJob))"
proof (intro conjI impI ballI)
  assume two: "length (returnParameters func) = 2"
  show "isl (runFunction func g)"
    using two by (rule runFunction_two_results)
  show "visitReturn func ret g = Inl (UnimplementedFeatureError ''TODO: Impl multivalued return'')"
    using two by (auto simp add: visitReturn_def Let_def)
  {
    assume "\<forall>p \<in> set (parameters func @ returnParameters func).
              type (snd p) \<noteq> Inl NullDereference"
    then show "\<exists>msg. runFunction func g = Inl (UnimplementedFeatureError msg)"
      using two runFunction_two_results_unimplemented [of func g] by blast
  }
  {
    assume "\<forall>p \<in> set (parameters func @ returnParameters func). \<exists>t. type (snd p) = Inr t"
    then show "runFunction func g
        = Inl (UnimplementedFeatureError ''TODO: Impl multivalued return'')"
      using two runFunction_two_results_message [of func g] by blast
  }
  {
    assume "c \<in> set contracts \<and> func \<in> set (definedFunctions c)"
    then show "isl (runSolidityToMLIRPass contracts verify doJob)"
      using pipeline_fails [of c contracts func verify doJob] runFunction_two_results [OF two]
      by blast
  }
next
  show "genCast v (IntegerType (IntTy 32 s)) (IntegerType (IntTy 8 s')) g
     = Inl (UnimplementedFeatureError ''Unhandled cast\<newline>'')"
    by (rule genCast_narrowing [of _ "IntTy 32 s" _ "IntTy 8 s'"]) (simp_all add: getAsIntTy_def)
next
  assume h: "c' \<in> set contracts' \<and> func' \<in> set (definedFunctions c') \<and>
    map snd (returnParameters func') = [dstTy] \<and> getAsIntTy dstTy = Some d \<and> numBits d = 8 \<and>
    Some e \<in> set (returnsInList (fbody func')) \<and> \<not> isIdentifier e \<and>
    getAsIntTy (exprType e) = Some a \<and> numBits a = 32"
  have ret: "\<forall>g. isl (visitReturn func' (Some e) g)"
    using h visitReturn_narrowing_fails [of func' dstTy e a d] by simp
  have "\<And>g. isl (acceptStatements func' (fbody func') g)"
    using accept_fails(2) [of "Some e" "fbody func'" func'] h ret by blast
  then have "\<And>g. isl (runFunction func' g)"
    by (rule runFunction_accept_fails)
  then show "isl (runSolidityToMLIRPass contracts' verify doJob)"
    using pipeline_fails [of c' contracts' func' verify doJob] h by blast
qed

theorem C9_fail_fast_witness:
  "runFunction
     \<lparr>fname = ''f'', parameters = [(0, IntegerType (IntTy 32 False))],
      returnParameters = [(1, IntegerType (IntTy 8 False)), (2, IntegerType (IntTy 8 False))],
      fbody = [Return None]\<rparr> \<lparr>gops = [], varMemRef = Map.empty\<rparr>
     = Inl (UnimplementedFeatureError ''TODO: Impl multivalued return'') \<and>
   runSolidityToMLIRPass
     [\<lparr>cname = ''C'', definedFunctions =
        [\<lparr>fname = ''f'', parameters = [(0, IntegerType (IntTy 32 False))],
          returnParameters = [(1, IntegerType (IntTy 8 False)), (2, IntegerType (IntTy 8 False))],
          fbody = [Return None]\<rparr>]\<rparr>] (\<lambda>m. True) (\<lambda>m. True)
     = Inl (UnimplementedFeatureError ''TODO: Impl multivalued return'') \<and>
   genCast (BlockArgument 0 (MlirIntegerType 32)) (IntegerType (IntTy 32 False))
     (IntegerType (IntTy 8 False)) \<lparr>gops = [], varMemRef = Map.empty\<rparr>
     = Inl (UnimplementedFeatureError ''Unhandled cast\<newline>'') \<and>
   runSolidityToMLIRPass
     [\<lparr>cname = ''D'', definedFunctions =
        [\<lparr>fname = ''g'', parameters = [(0, IntegerType (IntTy 32 False))],
          returnParameters = [(1, IntegerType (IntTy 8 False))],
          fbody = [Return (Some (BinaryOperation (IntegerType (IntTy 32 False)) Add
                     (Identifier (IntegerType (IntTy 32 False)) 0)
                     (Identifier (IntegerType (IntTy 32 False)) 0)))]\<rparr>]\<rparr>] (\<lambda>m. True) (\<lambda>m. True)
     = Inl (UnimplementedFeatureError ''Unhandled cast\<newline>'')"
  using C9_fail_fast [of
      "\<lparr>fname = ''f'', parameters = [(0, IntegerType (IntTy 32 False))],
        returnParameters = [(1, IntegerType (IntTy 8 False)), (2, IntegerType (IntTy 8 False))],
        fbody = [Return None]\<rparr>"
      "\<lparr>gops = [], varMemRef = Map.empty\<rparr>" None
      "\<lparr>cname = ''C'', definedFunctions =
        [\<lparr>fname = ''f'', parameters = [(0, IntegerType (IntTy 32 False))],
          returnParameters = [(1, IntegerType (IntTy 8 False)), (2, IntegerType (IntTy 8 False))],
          fbody = [Return None]\<rparr>]\<rparr>"
      "[\<lparr>cname = ''C'', definedFunctions =
        [\<lparr>fname = ''f'', parameters = [(0, IntegerType (IntTy 32 False))],
          returnParameters = [(1, IntegerType (IntTy 8 False)), (2, IntegerType (IntTy 8 False))],
          fbody = [Return None]\<rparr>]\<rparr>]"
      "\<lambda>m. True" "\<lambda>m. True" "BlockArgument 0 (MlirIntegerType 32)" False False
      "\<lparr>cname = ''D'', definedFunctions =
        [\<lparr>fname = ''g'', parameters = [(0, IntegerType (IntTy 32 False))],
          returnParameters = [(1, IntegerType (IntTy 8 False))],
          fbody = [Return (Some (BinaryOperation (IntegerType (IntTy 32 False)) Add
                     (Identifier (IntegerType (IntTy 32 False)) 0)
                     (Identifier (IntegerType (IntTy 32 False)) 0)))]\<rparr>]\<rparr>"
      "[\<lparr>cname = ''D'', definedFunctions =
        [\<lparr>fname = ''g'', parameters = [(0, IntegerType (IntTy 32 False))],
          returnParameters = [(1, IntegerType (IntTy 8 False))],
          fbody = [Return (Some (BinaryOperation (IntegerType (IntTy 32 False)) Add
                     (Identifier (IntegerType (IntTy 32 False)) 0)
                     (Identifier (IntegerType (IntTy 32 False)) 0)))]\<rparr>]\<rparr>]"
      "\<lparr>fname = ''g'', parameters = [(0, IntegerType (IntTy 32 False))],
          returnParameters = [(1, IntegerType (IntTy 8 False))],
          fbody = [Return (Some (BinaryOperation (IntegerType (IntTy 32 False)) Add
                     (Identifier (IntegerType (IntTy 32 False)) 0)
                     (Identifier (IntegerType (IntTy 32 False)) 0)))]\<rparr>"
      "IntegerType (IntTy 8 False)" "IntTy 8 False"
      "BinaryOperation (IntegerType (IntTy 32 False)) Add
                     (Identifier (IntegerType (IntTy 32 False)) 0)
                     (Identifier (IntegerType (IntTy 32 False)) 0)"
      "IntTy 32 False"]
  by (simp add: runSolidityToMLIRPass_def runContract_def runFunction_def visitReturn_def
      genCast_def getAsIntTy_def type_def bindE_def storeParameter_def setMemRef_def
      getMemRef_def gcreate_def genExprCast_def exprType_def Let_def)

end
